theory Spec2Isabelle
  imports Complex_Main "HOL-Library.Word"
begin

section \<open>JavaScript strings\<close>

text \<open>
  A JavaScript string is a sequence of UTF-16 code units. \<open>includes\<close>, \<open>startsWith\<close>,
  \<open>split\<close>, \<open>trim\<close> and the regular expressions of the dashboard (none has the \<open>u\<close> flag)
  all work on code units, so a string is a list of 16-bit words. \<open>js\<close> turns an ASCII
  literal into its code units; the Japanese literals of the source are written as code
  unit lists, with the literal in a comment beside them.
\<close>

type_synonym jsstring = "16 word list"

primrec js :: "string \<Rightarrow> jsstring" where
  "js [] = []"
| "js (c # cs) = of_nat (of_char c) # js cs"

text \<open>\<open>s.startsWith(p)\<close>\<close>

fun startsWith :: "jsstring \<Rightarrow> jsstring \<Rightarrow> bool" where
  "startsWith s [] = True"
| "startsWith [] (p # ps) = False"
| "startsWith (c # cs) (p # ps) = (c = p \<and> startsWith cs ps)"

text \<open>\<open>s.includes(sub)\<close>: \<open>sub\<close> starts at some position of \<open>s\<close>.\<close>

fun str_includes :: "jsstring \<Rightarrow> jsstring \<Rightarrow> bool" where
  "str_includes [] sub = startsWith [] sub"
| "str_includes (c # cs) sub = (startsWith (c # cs) sub \<or> str_includes cs sub)"

text \<open>
  \<open>s.split(sep)\<close> for a separator of one code unit: the pieces between the separators, in
  order; a string without the separator is its own single piece, and the empty string
  splits into one empty piece.
\<close>

fun split_on :: "16 word \<Rightarrow> jsstring \<Rightarrow> jsstring list" where
  "split_on sep [] = [[]]"
| "split_on sep (c # cs) =
     (if c = sep then [] # split_on sep cs
      else (case split_on sep cs of
              piece # pieces \<Rightarrow> (c # piece) # pieces
            | [] \<Rightarrow> [[c]]))"

text \<open>
  The code units that \<open>trim()\<close> strips and that \<open>\s\<close> matches: the white space and line
  terminator code points of ECMAScript.
\<close>

definition isWhiteSpace :: "16 word \<Rightarrow> bool" where
  "isWhiteSpace c \<longleftrightarrow>
     c \<in> {0x09, 0x0A, 0x0B, 0x0C, 0x0D, 0x20, 0xA0, 0x1680, 0x2028, 0x2029, 0x202F,
          0x205F, 0x3000, 0xFEFF}
     \<or> (0x2000 \<le> c \<and> c \<le> 0x200A)"

definition trim :: "jsstring \<Rightarrow> jsstring" where
  "trim s = rev (dropWhile isWhiteSpace (rev (dropWhile isWhiteSpace s)))"

text \<open>\<open>s.replace(/\n/g, '<br>')\<close>\<close>

fun replace_newlines :: "jsstring \<Rightarrow> jsstring" where
  "replace_newlines [] = []"
| "replace_newlines (c # cs) =
     (if c = 0x0A then js ''<br>'' @ replace_newlines cs else c # replace_newlines cs)"

datatype js_error = TypeError | SyntaxError

section \<open>Section splitting: \<open>CryptoDashboard.parseAnalysisSections\<close>\<close>

text \<open>The objects pushed to \<open>currentSection.metrics\<close> have a label and a value only.\<close>

record section_metric =
  sm_label :: jsstring
  sm_value :: jsstring

record analysis_section =
  title :: jsstring
  content :: jsstring
  metrics :: "section_metric list"

text \<open>
  \<open>const [label, value] = line.split(':')\<close> followed by \<open>label.trim()\<close> and
  \<open>value.trim()\<close>: the first two pieces of the split; a missing piece is \<open>undefined\<close>,
  and calling \<open>trim\<close> on it throws a TypeError.
\<close>

definition metric_of_line :: "jsstring \<Rightarrow> js_error + section_metric" where
  "metric_of_line line =
     (case split_on 0x3A line of
        label # value # _ \<Rightarrow> Inr \<lparr>sm_label = trim label, sm_value = trim value\<rparr>
      | _ \<Rightarrow> Inl TypeError)"

text \<open>\<open>line.replace(/^##\s*/, '')\<close> on a line that starts with \<open>##\<close>.\<close>

definition heading_title :: "jsstring \<Rightarrow> jsstring" where
  "heading_title line = dropWhile isWhiteSpace (drop 2 line)"

text \<open>\<open>if (currentSection) sections.push(currentSection)\<close>\<close>

definition push_current :: "analysis_section list \<Rightarrow> analysis_section option \<Rightarrow> analysis_section list" where
  "push_current sections currentSection =
     (case currentSection of None \<Rightarrow> sections | Some s \<Rightarrow> sections @ [s])"

text \<open>
  The \<open>for (const line of lines)\<close> loop, with its two variables \<open>sections\<close> and
  \<open>currentSection\<close> (\<open>None\<close> is \<open>null\<close>).
\<close>

fun sections_loop ::
  "jsstring list \<Rightarrow> analysis_section list \<Rightarrow> analysis_section option
     \<Rightarrow> js_error + (analysis_section list \<times> analysis_section option)" where
  "sections_loop [] sections currentSection = Inr (sections, currentSection)"
| "sections_loop (line # lines) sections currentSection =
     (if startsWith line (js ''##'') then
        sections_loop lines (push_current sections currentSection)
          (Some \<lparr>title = heading_title line, content = [], metrics = []\<rparr>)
      else
        (case currentSection of
           None \<Rightarrow> sections_loop lines sections None
         | Some s \<Rightarrow>
             if str_includes line (js ''$'') \<and> str_includes line (js '':'') then
               (case metric_of_line line of
                  Inl e \<Rightarrow> Inl e
                | Inr m \<Rightarrow> sections_loop lines sections (Some (s\<lparr>metrics := metrics s @ [m]\<rparr>)))
             else
               sections_loop lines sections
                 (Some (s\<lparr>content := content s @ line @ js ''<br>''\<rparr>))))"

text \<open>The fallback title, the literal of the source: U+5206 U+6790 U+7D50 U+679C ("analysis result").\<close>

definition fallback_title :: jsstring where
  "fallback_title = [0x5206, 0x6790, 0x7D50, 0x679C]"

definition parseAnalysisSections :: "jsstring \<Rightarrow> js_error + analysis_section list" where
  "parseAnalysisSections analysisText =
     (case sections_loop (split_on 0x0A analysisText) [] None of
        Inl e \<Rightarrow> Inl e
      | Inr (sections, currentSection) \<Rightarrow>
          (let sections' = push_current sections currentSection in
           Inr (if length sections' > 0 then sections'
                else [\<lparr>title = fallback_title, content = replace_newlines analysisText,
                       metrics = []\<rparr>])))"

section \<open>The regular expressions of the metric extraction\<close>

text \<open>
  The two patterns of \<open>parseAnalysisMetrics\<close> use one code unit, character classes,
  sequence and the greedy quantifiers \<open>?\<close>, \<open>*\<close> and \<open>+\<close> on a single character or class.
\<close>

datatype rx =
    RChar "16 word \<Rightarrow> bool"
  | RSeq rx rx
  | ROpt rx
  | RStar "16 word \<Rightarrow> bool"
  | RPlus "16 word \<Rightarrow> bool"

text \<open>
  A backtracking matcher tries the alternatives of a pattern in a fixed order of
  preference (a greedy quantifier takes as much as it can first) and the first alternative
  that lets the rest of the pattern match wins. \<open>rx_run r s\<close> lists, in that order, what is
  left of \<open>s\<close> after each way of matching \<open>r\<close> at the start of \<open>s\<close>.
\<close>

fun star_run :: "(16 word \<Rightarrow> bool) \<Rightarrow> jsstring \<Rightarrow> jsstring list" where
  "star_run p [] = [[]]"
| "star_run p (c # cs) = (if p c then star_run p cs @ [c # cs] else [c # cs])"

fun rx_run :: "rx \<Rightarrow> jsstring \<Rightarrow> jsstring list" where
  "rx_run (RChar p) s = (case s of [] \<Rightarrow> [] | c # cs \<Rightarrow> if p c then [cs] else [])"
| "rx_run (RSeq a b) s = concat (map (rx_run b) (rx_run a s))"
| "rx_run (ROpt a) s = rx_run a s @ [s]"
| "rx_run (RStar p) s = star_run p s"
| "rx_run (RPlus p) s = (case s of [] \<Rightarrow> [] | c # cs \<Rightarrow> if p c then star_run p cs else [])"

text \<open>
  \<open>s.match(r)\<close> for a pattern without the \<open>g\<close> flag: the start positions are tried from
  left to right; the result is the matched text of the first position where the pattern
  matches, \<open>None\<close> (\<open>null\<close>) when there is none.
\<close>

fun rx_exec :: "rx \<Rightarrow> jsstring \<Rightarrow> jsstring option" where
  "rx_exec r [] = (case rx_run r [] of [] \<Rightarrow> None | rest # _ \<Rightarrow> Some [])"
| "rx_exec r (c # cs) =
     (case rx_run r (c # cs) of
        [] \<Rightarrow> rx_exec r cs
      | rest # _ \<Rightarrow> Some (take (length (c # cs) - length rest) (c # cs)))"

definition is_digit :: "16 word \<Rightarrow> bool" where
  "is_digit c \<longleftrightarrow> 0x30 \<le> c \<and> c \<le> 0x39"

definition digit_or_comma :: "16 word \<Rightarrow> bool" where
  "digit_or_comma c \<longleftrightarrow> is_digit c \<or> c = 0x2C"

text \<open>\<open>/\$([0-9,]+\.?[0-9]*)/\<close>; its group is the match without the leading \<open>$\<close>.\<close>

definition price_rx :: rx where
  "price_rx =
     RSeq (RChar (\<lambda>c. c = 0x24))
       (RSeq (RPlus digit_or_comma) (RSeq (ROpt (RChar (\<lambda>c. c = 0x2E))) (RStar is_digit)))"

text \<open>\<open>/([+-]?[0-9]+\.?[0-9]*)%/\<close>; its group is the match without the final \<open>%\<close>.\<close>

definition change_rx :: rx where
  "change_rx =
     RSeq (ROpt (RChar (\<lambda>c. c = 0x2B \<or> c = 0x2D)))
       (RSeq (RPlus is_digit)
          (RSeq (ROpt (RChar (\<lambda>c. c = 0x2E))) (RSeq (RStar is_digit) (RChar (\<lambda>c. c = 0x25)))))"

section \<open>Metric extraction: \<open>parseAnalysisMetrics\<close>\<close>

record metric =
  label :: jsstring
  value_m :: jsstring
  class_m :: jsstring

text \<open>
  \<open>parseFloat\<close>, \<open>toFixed(2)\<close> and the comparison \<open>change >= 0\<close> work on IEEE doubles, which
  belong to the runtime and not to the program; the extraction takes them as a parameter.
\<close>

record 'n number_ops =
  parseFloat :: "jsstring \<Rightarrow> 'n"
  toFixed2 :: "'n \<Rightarrow> jsstring"
  geZero :: "'n \<Rightarrow> bool"

text \<open>The labels: U+73FE U+5728 U+4FA1 U+683C ("current price"), "24h" U+5909 U+52D5
  ("24h change"), U+30BB U+30F3 U+30C1 U+30E1 U+30F3 U+30C8 ("sentiment"), U+63A8 U+5968
  ("recommendation").\<close>

definition price_label :: jsstring where
  "price_label = [0x73FE, 0x5728, 0x4FA1, 0x683C]"

definition change_label :: jsstring where
  "change_label = js ''24h'' @ [0x5909, 0x52D5]"

definition sentiment_label :: jsstring where
  "sentiment_label = [0x30BB, 0x30F3, 0x30C1, 0x30E1, 0x30F3, 0x30C8]"

definition recommendation_label :: jsstring where
  "recommendation_label = [0x63A8, 0x5968]"

text \<open>The Japanese keywords and values: "positive", "negative", "neutral" in katakana,
  \<open>kai\<close> ("buy") and \<open>uri\<close> ("sell").\<close>

definition ja_positive :: jsstring where
  "ja_positive = [0x30DD, 0x30B8, 0x30C6, 0x30A3, 0x30D6]"

definition ja_negative :: jsstring where
  "ja_negative = [0x30CD, 0x30AC, 0x30C6, 0x30A3, 0x30D6]"

definition ja_neutral :: jsstring where
  "ja_neutral = [0x30CB, 0x30E5, 0x30FC, 0x30C8, 0x30E9, 0x30EB]"

definition ja_buy :: jsstring where
  "ja_buy = [0x8CB7, 0x3044]"

definition ja_sell :: jsstring where
  "ja_sell = [0x58F2, 0x308A]"

text \<open>
  The first statement of both \<open>parseAnalysisMetrics\<close> (the dashboard's and the mobile
  app's are the same here): what it pushes to the empty \<open>metrics\<close>.
\<close>

definition priceMetric :: "jsstring \<Rightarrow> metric list" where
  "priceMetric analysisText =
     (case rx_exec price_rx analysisText of
        None \<Rightarrow> []
      | Some m \<Rightarrow> [\<lparr>label = price_label, value_m = js ''$'' @ tl m, class_m = []\<rparr>])"

text \<open>The second statement; the two class names differ between the dashboard and the
  mobile app.\<close>

definition changeMetric ::
  "'n number_ops \<Rightarrow> jsstring \<Rightarrow> jsstring \<Rightarrow> jsstring \<Rightarrow> metric list" where
  "changeMetric rt up down analysisText =
     (case rx_exec change_rx analysisText of
        None \<Rightarrow> []
      | Some m \<Rightarrow>
          (let change = parseFloat rt (butlast m) in
           [\<lparr>label = change_label, value_m = toFixed2 rt change @ js ''%'',
             class_m = (if geZero rt change then up else down)\<rparr>]))"

text \<open>\<open>CryptoDashboard.parseAnalysisMetrics\<close>\<close>

definition parseAnalysisMetrics :: "'n number_ops \<Rightarrow> jsstring \<Rightarrow> metric list" where
  "parseAnalysisMetrics rt analysisText =
     (let metrics1 = priceMetric analysisText;
          metrics2 = metrics1 @ changeMetric rt (js ''price-up'') (js ''price-down'') analysisText;
          metrics3 =
            (if str_includes analysisText (js ''POSITIVE'') \<or> str_includes analysisText ja_positive
             then metrics2 @ [\<lparr>label = sentiment_label, value_m = ja_positive,
                                class_m = js ''sentiment-positive''\<rparr>]
             else if str_includes analysisText (js ''NEGATIVE'') \<or> str_includes analysisText ja_negative
             then metrics2 @ [\<lparr>label = sentiment_label, value_m = ja_negative,
                                class_m = js ''sentiment-negative''\<rparr>]
             else metrics2 @ [\<lparr>label = sentiment_label, value_m = ja_neutral,
                                class_m = js ''sentiment-neutral''\<rparr>])
      in
        if str_includes analysisText (js ''BUY'') \<or> str_includes analysisText ja_buy
        then metrics3 @ [\<lparr>label = recommendation_label, value_m = js ''BUY'',
                           class_m = js ''sentiment-positive''\<rparr>]
        else if str_includes analysisText (js ''SELL'') \<or> str_includes analysisText ja_sell
        then metrics3 @ [\<lparr>label = recommendation_label, value_m = js ''SELL'',
                           class_m = js ''sentiment-negative''\<rparr>]
        else metrics3 @ [\<lparr>label = recommendation_label, value_m = js ''HOLD'',
                           class_m = js ''sentiment-neutral''\<rparr>])"

text \<open>
  \<open>MobileCryptoApp.parseAnalysisMetrics\<close>: the same four statements with other class names
  and with an emoji (a surrogate pair, or U+23F8 U+FE0F) and a space before each value.
\<close>

definition parseAnalysisMetrics_mobile :: "'n number_ops \<Rightarrow> jsstring \<Rightarrow> metric list" where
  "parseAnalysisMetrics_mobile rt analysisText =
     (let metrics1 = priceMetric analysisText;
          metrics2 = metrics1 @ changeMetric rt (js ''positive'') (js ''negative'') analysisText;
          metrics3 =
            (if str_includes analysisText (js ''POSITIVE'') \<or> str_includes analysisText ja_positive
             then metrics2 @ [\<lparr>label = sentiment_label,
                                value_m = [0xD83D, 0xDE0A, 0x20] @ ja_positive,
                                class_m = js ''positive''\<rparr>]
             else if str_includes analysisText (js ''NEGATIVE'') \<or> str_includes analysisText ja_negative
             then metrics2 @ [\<lparr>label = sentiment_label,
                                value_m = [0xD83D, 0xDE1F, 0x20] @ ja_negative,
                                class_m = js ''negative''\<rparr>]
             else metrics2 @ [\<lparr>label = sentiment_label,
                                value_m = [0xD83D, 0xDE10, 0x20] @ ja_neutral,
                                class_m = []\<rparr>])
      in
        if str_includes analysisText (js ''BUY'') \<or> str_includes analysisText ja_buy
        then metrics3 @ [\<lparr>label = recommendation_label,
                           value_m = [0xD83D, 0xDCC8, 0x20] @ js ''BUY'', class_m = js ''positive''\<rparr>]
        else if str_includes analysisText (js ''SELL'') \<or> str_includes analysisText ja_sell
        then metrics3 @ [\<lparr>label = recommendation_label,
                           value_m = [0xD83D, 0xDCC9, 0x20] @ js ''SELL'', class_m = js ''negative''\<rparr>]
        else metrics3 @ [\<lparr>label = recommendation_label,
                           value_m = [0x23F8, 0xFE0F, 0x20] @ js ''HOLD'', class_m = []\<rparr>])"

section \<open>News classification: \<open>CryptoNewsApp.categorizeNews\<close> and \<open>analyzeSentiment\<close>\<close>

text \<open>
  \<open>String.prototype.toLowerCase\<close> follows the Unicode case mapping of the runtime; the two
  classifiers take it as their first argument. \<open>toLowerCase_ascii\<close> is that function on
  strings whose code units are all below 128, used where an example is evaluated.
\<close>

definition toLowerCase_ascii :: "jsstring \<Rightarrow> jsstring" where
  "toLowerCase_ascii s = map (\<lambda>c. if 0x41 \<le> c \<and> c \<le> 0x5A then c + 0x20 else c) s"

text \<open>U+898F U+5236 ("regulation").\<close>

definition ja_regulation :: jsstring where
  "ja_regulation = [0x898F, 0x5236]"

definition categorizeNews :: "(jsstring \<Rightarrow> jsstring) \<Rightarrow> jsstring \<Rightarrow> jsstring \<Rightarrow> jsstring" where
  "categorizeNews toLowerCase news_title summary =
     (let text = toLowerCase (news_title @ js '' '' @ summary) in
      if str_includes text (js ''bitcoin'') \<or> str_includes text (js ''btc'') then js ''bitcoin''
      else if str_includes text (js ''ethereum'') \<or> str_includes text (js ''eth'') then js ''ethereum''
      else if str_includes text (js ''defi'') \<or> str_includes text (js ''decentralized'') then js ''defi''
      else if str_includes text (js ''regulation'') \<or> str_includes text (js ''regulatory'')
              \<or> str_includes text ja_regulation then js ''regulation''
      else if str_includes text (js ''blockchain'') \<or> str_includes text (js ''technology'')
              \<or> str_includes text (js ''tech'') then js ''technology''
      else js ''general'')"

text \<open>The two keyword lists, English then Japanese, in the order of the source.\<close>

definition positiveWords :: "jsstring list" where
  "positiveWords =
    [js ''surge'', js ''rally'', js ''bullish'', js ''gains'', js ''rise'',
     js ''positive'', js ''breakthrough'', js ''adoption'', js ''growth'', js ''boom'',
     js ''soar'', js ''spike'', js ''moon'', js ''bull'', js ''up'', js ''high'',
     js ''record'', [0x4E0A, 0x6607], [0x6025, 0x9A30], [0x5F37, 0x6C17], [0x5229, 0x76CA],
     [0x5897, 0x52A0], [0x524D, 0x5411, 0x304D], [0x7A81, 0x7834], [0x63A1, 0x7528],
     [0x6210, 0x9577], [0x597D, 0x8ABF], [0x8CB7, 0x3044]]"

definition negativeWords :: "jsstring list" where
  "negativeWords =
    [js ''crash'', js ''dump'', js ''bearish'', js ''decline'', js ''fall'',
     js ''negative'', js ''concern'', js ''regulation'', js ''drop'', js ''plunge'',
     js ''bear'', js ''down'', js ''low'', js ''sell'', js ''fear'', js ''risk'',
     [0x66B4, 0x843D], [0x30C0, 0x30F3, 0x30D7], [0x5F31, 0x6C17], [0x4E0B, 0x843D],
     [0x843D, 0x4E0B], [0x5426, 0x5B9A, 0x7684], [0x61F8, 0x5FF5], [0x898F, 0x5236],
     [0x4F4E, 0x4E0B], [0x6025, 0x843D], [0x718A], [0x4E0B], [0x4F4E, 0x3044],
     [0x58F2, 0x308A], [0x6050, 0x6016], [0x30EA, 0x30B9, 0x30AF], [0x4E0D, 0x5B89]]"

definition analyzeSentiment :: "(jsstring \<Rightarrow> jsstring) \<Rightarrow> jsstring \<Rightarrow> jsstring \<Rightarrow> jsstring" where
  "analyzeSentiment toLowerCase news_title summary =
     (let text = toLowerCase (news_title @ js '' '' @ summary);
          posCount = length (filter (\<lambda>word. str_includes text word) positiveWords);
          negCount = length (filter (\<lambda>word. str_includes text word) negativeWords)
      in if posCount > negCount then js ''positive''
         else if negCount > posCount then js ''negative''
         else js ''neutral'')"

section \<open>Price acquisition: \<open>MobileCryptoApp.fetchCryptoPrice\<close>\<close>

text \<open>
  The values a JSON body parses to, and \<open>undefined\<close>. Numbers are only passed on by the
  code, so their type is a parameter. An object is the list of its own properties, each
  key once.
\<close>

datatype 'n jsval =
    JUndefined
  | JNull
  | JBool bool
  | JNum 'n
  | JStr jsstring
  | JArr "'n jsval list"
  | JObj "(jsstring \<times> 'n jsval) list"

text \<open>
  An array index as a property key: the decimal digits of a number below \<open>2^32 - 1\<close>, without
  a leading zero.
\<close>

fun digits_value :: "nat \<Rightarrow> jsstring \<Rightarrow> nat option" where
  "digits_value acc [] = Some acc"
| "digits_value acc (c # cs) =
     (if is_digit c then digits_value (10 * acc + (unat c - 48)) cs else None)"

definition array_index :: "jsstring \<Rightarrow> nat option" where
  "array_index k =
     (if k = [] \<or> (hd k = 0x30 \<and> length k > 1) then None
      else (case digits_value 0 k of
              None \<Rightarrow> None
            | Some n \<Rightarrow> if n < 2 ^ 32 - 1 then Some n else None))"

text \<open>
  \<open>v[k]\<close>. Reading a property of \<open>undefined\<close> or \<open>null\<close> throws a TypeError. A key that
  names no own property reads as \<open>undefined\<close>. The properties that a value inherits from the
  built-in prototypes (and \<open>length\<close>) are numbers, functions or prototype objects; none of
  them has a \<open>usd\<close> or \<open>usd_24h_change\<close> property, which is all that the code reads from the
  result, so they read as \<open>undefined\<close> here as well.
\<close>

fun getProp :: "'n jsval \<Rightarrow> jsstring \<Rightarrow> js_error + 'n jsval" where
  "getProp JUndefined k = Inl TypeError"
| "getProp JNull k = Inl TypeError"
| "getProp (JBool b) k = Inr JUndefined"
| "getProp (JNum n) k = Inr JUndefined"
| "getProp (JStr s) k =
     Inr (case array_index k of
            None \<Rightarrow> JUndefined
          | Some i \<Rightarrow> if i < length s then JStr [s ! i] else JUndefined)"
| "getProp (JArr xs) k =
     Inr (case array_index k of
            None \<Rightarrow> JUndefined
          | Some i \<Rightarrow> if i < length xs then xs ! i else JUndefined)"
| "getProp (JObj props) k = Inr (case map_of props k of None \<Rightarrow> JUndefined | Some v \<Rightarrow> v)"

text \<open>\<open>v?.k\<close>\<close>

definition optProp :: "'n jsval \<Rightarrow> jsstring \<Rightarrow> js_error + 'n jsval" where
  "optProp v k = (case v of JUndefined \<Rightarrow> Inr JUndefined | JNull \<Rightarrow> Inr JUndefined | _ \<Rightarrow> getProp v k)"

text \<open>
  A response has its \<open>ok\<close> flag and what \<open>response.json()\<close> settles to (a SyntaxError when
  the body is not JSON). \<open>fetch(url)\<close> of the network gives a response or rejects (a
  transport failure).
\<close>

record 'n response =
  ok :: bool
  json :: "js_error + 'n jsval"

type_synonym 'n network = "jsstring \<Rightarrow> js_error + 'n response"

text \<open>How a block of statements ends: with \<open>return v\<close>, by reaching its end, or by throwing.\<close>

datatype 'a completion = Return 'a | Normal | Throw js_error

definition await :: "js_error + 'a \<Rightarrow> ('a \<Rightarrow> 'b completion) \<Rightarrow> 'b completion" where
  "await r f = (case r of Inl e \<Rightarrow> Throw e | Inr x \<Rightarrow> f x)"

text \<open>\<open>try { block } catch (error) { console.error(...) }\<close>\<close>

definition try_catch_log :: "'a completion \<Rightarrow> 'a completion" where
  "try_catch_log block = (case block of Throw e \<Rightarrow> Normal | c \<Rightarrow> c)"

definition primary_url :: "jsstring \<Rightarrow> jsstring" where
  "primary_url cryptoId = js ''/api/crypto-price/'' @ cryptoId"

definition fallback_url :: "jsstring \<Rightarrow> jsstring" where
  "fallback_url cryptoId =
     js ''https://api.coingecko.com/api/v3/simple/price?ids='' @ cryptoId
       @ js ''&vs_currencies=usd&include_24hr_change=true''"

text \<open>The body of the first \<open>try\<close>.\<close>

definition primary_block :: "'n network \<Rightarrow> jsstring \<Rightarrow> 'n jsval completion" where
  "primary_block net cryptoId =
     await (net (primary_url cryptoId)) (\<lambda>response.
       if ok response then await (json response) (\<lambda>data. Return data) else Normal)"

text \<open>The body of the second \<open>try\<close>.\<close>

definition fallback_block :: "'n network \<Rightarrow> jsstring \<Rightarrow> 'n jsval completion" where
  "fallback_block net cryptoId =
     await (net (fallback_url cryptoId)) (\<lambda>response.
       if ok response then
         await (json response) (\<lambda>data.
         await (getProp data cryptoId) (\<lambda>entry1.
         await (optProp entry1 (js ''usd'')) (\<lambda>usd.
         await (getProp data cryptoId) (\<lambda>entry2.
         await (optProp entry2 (js ''usd_24h_change'')) (\<lambda>change.
           Return (JObj [(js ''price_usd'', usd), (js ''price_change_24h'', change)]))))))
       else Normal)"

text \<open>
  \<open>fetchCryptoPrice\<close>: how the call ends, and the URLs it has passed to \<open>fetch\<close>, in order
  (each \<open>try\<close> starts with its one \<open>fetch\<close>).
\<close>

definition fetchCryptoPrice ::
  "'n network \<Rightarrow> jsstring \<Rightarrow> 'n jsval completion \<times> jsstring list" where
  "fetchCryptoPrice net cryptoId =
     (case try_catch_log (primary_block net cryptoId) of
        Return v \<Rightarrow> (Return v, [primary_url cryptoId])
      | Throw e \<Rightarrow> (Throw e, [primary_url cryptoId])
      | Normal \<Rightarrow>
          (case try_catch_log (fallback_block net cryptoId) of
             Return v \<Rightarrow> (Return v, [primary_url cryptoId, fallback_url cryptoId])
           | Throw e \<Rightarrow> (Throw e, [primary_url cryptoId, fallback_url cryptoId])
           | Normal \<Rightarrow> (Return JNull, [primary_url cryptoId, fallback_url cryptoId])))"

section \<open>Price acquisition on the dashboard: \<open>CryptoDashboard.loadMarketOverview\<close>\<close>

definition coingecko_url :: "jsstring \<Rightarrow> jsstring" where
  "coingecko_url cryptoId =
     js ''https://api.coingecko.com/api/v3/simple/price?ids='' @ cryptoId
       @ js ''&vs_currencies=usd,jpy&include_24hr_change=true&include_market_cap=true&include_24hr_vol=true''"

text \<open>The body of the \<open>try\<close> of \<open>fetchFromCoinGecko\<close>: it returns \<open>data[cryptoId]\<close> as it is.\<close>

definition coingecko_block :: "'n network \<Rightarrow> jsstring \<Rightarrow> 'n jsval completion" where
  "coingecko_block net cryptoId =
     await (net (coingecko_url cryptoId)) (\<lambda>response.
       if ok response then
         await (json response) (\<lambda>data.
         await (getProp data cryptoId) (\<lambda>entry. Return entry))
       else Normal)"

text \<open>\<open>fetchFromCoinGecko\<close>: one request; after a logged error or a response that is not a
  success it returns \<open>null\<close>.\<close>

definition fetchFromCoinGecko :: "'n network \<Rightarrow> jsstring \<Rightarrow> 'n jsval completion" where
  "fetchFromCoinGecko net cryptoId =
     (case try_catch_log (coingecko_block net cryptoId) of Normal \<Rightarrow> Return JNull | c \<Rightarrow> c)"

text \<open>\<open>if (fallbackData)\<close>: the values that count as false are \<open>undefined\<close>, \<open>null\<close>,
  \<open>false\<close>, zero and the empty string.\<close>

definition truthy :: "('n::zero) jsval \<Rightarrow> bool" where
  "truthy v =
     (case v of
        JUndefined \<Rightarrow> False
      | JNull \<Rightarrow> False
      | JBool b \<Rightarrow> b
      | JNum n \<Rightarrow> n \<noteq> 0
      | JStr s \<Rightarrow> s \<noteq> []
      | _ \<Rightarrow> True)"

text \<open>
  The body of the \<open>try\<close> in the loop of \<open>loadMarketOverview\<close>, for one entity: how it ends
  and the URLs passed to \<open>fetch\<close>, in order. \<open>updatePriceCard\<close> writes to the page; it is a
  parameter that says whether the call returns or throws.
\<close>

definition overview_try ::
  "(jsstring \<Rightarrow> ('n::zero) jsval \<Rightarrow> js_error + unit) \<Rightarrow> 'n network \<Rightarrow> jsstring
     \<Rightarrow> unit completion \<times> jsstring list" where
  "overview_try updatePriceCard net crypto_id =
     (case net (primary_url crypto_id) of
        Inl e \<Rightarrow> (Throw e, [primary_url crypto_id])
      | Inr response \<Rightarrow>
          if ok response then
            (await (json response) (\<lambda>data.
               await (updatePriceCard crypto_id data) (\<lambda>_. Normal)),
             [primary_url crypto_id])
          else
            ((case fetchFromCoinGecko net crypto_id of
                Return fallbackData \<Rightarrow>
                  if truthy fallbackData
                  then await (updatePriceCard crypto_id fallbackData) (\<lambda>_. Normal)
                  else Normal
              | Normal \<Rightarrow> Normal
              | Throw e \<Rightarrow> Throw e),
             [primary_url crypto_id, coingecko_url crypto_id]))"

text \<open>
  The \<open>try\<close> with its \<open>catch\<close>: the handler logs the error and calls
  \<open>this.showSkeletonData(crypto)\<close>. No class of the repository defines a method of that name
  (the mobile app has \<open>showSkeletonPrice\<close>), so the call throws a TypeError out of the handler.
\<close>

definition overview_iteration ::
  "(jsstring \<Rightarrow> ('n::zero) jsval \<Rightarrow> js_error + unit) \<Rightarrow> 'n network \<Rightarrow> jsstring
     \<Rightarrow> unit completion \<times> jsstring list" where
  "overview_iteration updatePriceCard net crypto_id =
     (case overview_try updatePriceCard net crypto_id of
        (Throw e, requests) \<Rightarrow> (Throw TypeError, requests)
      | r \<Rightarrow> r)"

text \<open>The \<open>for\<close> loop: an iteration that throws ends the loop and the function.\<close>

fun overview_loop ::
  "(jsstring \<Rightarrow> ('n::zero) jsval \<Rightarrow> js_error + unit) \<Rightarrow> 'n network \<Rightarrow> jsstring list
     \<Rightarrow> unit completion \<times> jsstring list" where
  "overview_loop updatePriceCard net [] = (Normal, [])"
| "overview_loop updatePriceCard net (crypto_id # cryptos) =
     (case overview_iteration updatePriceCard net crypto_id of
        (Normal, requests) \<Rightarrow>
          (case overview_loop updatePriceCard net cryptos of
             (r, later_requests) \<Rightarrow> (r, requests @ later_requests))
      | r \<Rightarrow> r)"

text \<open>\<open>loadMarketOverview\<close>; the \<open>loadMarketMetrics\<close> that follows the loop writes two fixed
  texts to the page inside its own \<open>try\<close> and requests nothing.\<close>

definition loadMarketOverview ::
  "(jsstring \<Rightarrow> ('n::zero) jsval \<Rightarrow> js_error + unit) \<Rightarrow> 'n network
     \<Rightarrow> unit completion \<times> jsstring list" where
  "loadMarketOverview updatePriceCard net =
     overview_loop updatePriceCard net [js ''bitcoin'', js ''ethereum'']"

section \<open>Alerts: \<open>MobileCryptoApp.saveAlert\<close>\<close>

text \<open>What \<open>parseFloat\<close> can give for the price field.\<close>

datatype jsnum = NaN | Finite real | PosInfinity | NegInfinity

text \<open>\<open>!price\<close> is true for \<open>NaN\<close> and for zero, and for no other number.\<close>

definition falsy_num :: "jsnum \<Rightarrow> bool" where
  "falsy_num n = (case n of NaN \<Rightarrow> True | Finite x \<Rightarrow> x = 0 | _ \<Rightarrow> False)"

record alert =
  alert_id :: nat
  crypto :: jsstring
  condition :: jsstring
  price :: jsnum
  created :: nat
  active :: bool

text \<open>
  The state that \<open>saveAlert\<close> works on: \<open>this.alerts\<close>, the value stored under
  \<open>crypto-mobile-alerts\<close> in \<open>localStorage\<close> (the list that was serialised there, if any)
  and the toasts shown, each with its message and type.
\<close>

record mobile_app =
  alerts :: "alert list"
  stored_alerts :: "alert list option"
  toasts :: "(jsstring \<times> jsstring) list"

text \<open>The two messages: "please fill in all fields" and "the alert has been set".\<close>

definition msg_fill_all :: jsstring where
  "msg_fill_all = [0x3059, 0x3079, 0x3066, 0x306E, 0x9805, 0x76EE, 0x3092, 0x5165, 0x529B,
                   0x3057, 0x3066, 0x304F, 0x3060, 0x3055, 0x3044]"

definition msg_alert_set :: jsstring where
  "msg_alert_set = [0x30A2, 0x30E9, 0x30FC, 0x30C8, 0x3092, 0x8A2D, 0x5B9A, 0x3057, 0x307E,
                    0x3057, 0x305F]"

definition showToast :: "jsstring \<Rightarrow> jsstring \<Rightarrow> mobile_app \<Rightarrow> mobile_app" where
  "showToast message type app = app\<lparr>toasts := toasts app @ [(message, type)]\<rparr>"

text \<open>\<open>saveAlerts\<close>: \<open>setItem\<close> may throw (the quota); the error is logged and nothing is
  stored.\<close>

definition saveAlerts :: "bool \<Rightarrow> mobile_app \<Rightarrow> mobile_app" where
  "saveAlerts setItem_ok app =
     (if setItem_ok then app\<lparr>stored_alerts := Some (alerts app)\<rparr> else app)"

text \<open>
  \<open>saveAlert\<close>, from the values of the three form fields (the price already through
  \<open>parseFloat\<close>), the clock and whether \<open>setItem\<close> succeeds. The empty string is the only
  string for which \<open>!crypto\<close> holds. Hiding the modal is not modelled.
\<close>

definition saveAlert ::
  "jsstring \<Rightarrow> jsstring \<Rightarrow> jsnum \<Rightarrow> nat \<Rightarrow> bool \<Rightarrow> mobile_app \<Rightarrow> mobile_app" where
  "saveAlert crypto_field condition_field price_field now setItem_ok app =
     (if crypto_field = [] \<or> condition_field = [] \<or> falsy_num price_field then
        showToast msg_fill_all (js ''warning'') app
      else
        (let new_alert = \<lparr>alert_id = now, crypto = crypto_field, condition = condition_field,
                           price = price_field, created = now, active = True\<rparr>;
             app1 = app\<lparr>alerts := alerts app @ [new_alert]\<rparr>;
             app2 = saveAlerts setItem_ok app1
         in showToast msg_alert_set (js ''success'') app2))"

section \<open>Refresh timers: \<open>CryptoDashboard.startRealTimeUpdates\<close> and \<open>saveSettings\<close>\<close>

datatype refresh_task = LoadMarketOverview | LoadCryptoNews

text \<open>A timer made by \<open>setInterval(task, delay)\<close> at the time \<open>started\<close> (milliseconds).\<close>

record timer =
  started :: nat
  delay :: nat
  task :: refresh_task

record dashboard =
  updateInterval :: nat
  timers :: "timer list"

definition setInterval :: "nat \<Rightarrow> refresh_task \<Rightarrow> nat \<Rightarrow> dashboard \<Rightarrow> dashboard" where
  "setInterval now t d app = app\<lparr>timers := timers app @ [\<lparr>started = now, delay = d, task = t\<rparr>]\<rparr>"

definition startRealTimeUpdates :: "nat \<Rightarrow> dashboard \<Rightarrow> dashboard" where
  "startRealTimeUpdates now app =
     setInterval now LoadCryptoNews (updateInterval app * 2)
       (setInterval now LoadMarketOverview (updateInterval app) app)"

text \<open>The constructor sets the default of 30 seconds and \<open>init\<close> starts the updates.\<close>

definition new_dashboard :: "nat \<Rightarrow> dashboard" where
  "new_dashboard now = startRealTimeUpdates now \<lparr>updateInterval = 30000, timers = []\<rparr>"

text \<open>
  \<open>saveSettings\<close>, from the parsed value of the frequency field (seconds). Writing the
  settings to \<open>localStorage\<close> and the notification do not touch the timers and are left out.
\<close>

definition saveSettings :: "nat \<Rightarrow> nat \<Rightarrow> dashboard \<Rightarrow> dashboard" where
  "saveSettings now updateFreq app = startRealTimeUpdates now (app\<lparr>updateInterval := updateFreq * 1000\<rparr>)"

text \<open>A timer fires every \<open>delay\<close> milliseconds after it was started, until it is cleared;
  the dashboard never clears one. Time is counted in milliseconds, and a timer with a delay
  of 0 fires again and again, at every millisecond.\<close>

definition fires :: "timer \<Rightarrow> nat \<Rightarrow> bool" where
  "fires tm t \<longleftrightarrow> started tm < t \<and> (t - started tm) mod (max 1 (delay tm)) = 0"

definition due_timers :: "dashboard \<Rightarrow> nat \<Rightarrow> timer list" where
  "due_timers app t = filter (\<lambda>tm. fires tm t) (timers app)"

section \<open>Notions of the specification\<close>

text \<open>
  The language of a pattern: the strings it matches as a whole, whatever the order in
  which a matcher finds them.
\<close>

fun lang :: "rx \<Rightarrow> jsstring set" where
  "lang (RChar p) = {m. \<exists>c. m = [c] \<and> p c}"
| "lang (RSeq a b) = {m. \<exists>x y. m = x @ y \<and> x \<in> lang a \<and> y \<in> lang b}"
| "lang (ROpt a) = insert [] (lang a)"
| "lang (RStar p) = {m. list_all p m}"
| "lang (RPlus p) = {m. m \<noteq> [] \<and> list_all p m}"

text \<open>\<open>occurs r s\<close>: some substring of \<open>s\<close> matches the pattern \<open>r\<close>.\<close>

definition occurs :: "rx \<Rightarrow> jsstring \<Rightarrow> bool" where
  "occurs r s \<longleftrightarrow> (\<exists>pre m post. s = pre @ m @ post \<and> m \<in> lang r)"

text \<open>
  A \<open>$\<close>-prefixed decimal number in the words of the specification: \<open>$\<close>, then digits with
  optional thousands separators between them, then optionally a fractional part, a point
  followed by digits.
\<close>

definition spec_dollar_number :: "jsstring \<Rightarrow> bool" where
  "spec_dollar_number s \<longleftrightarrow>
     (case s of
        [] \<Rightarrow> False
      | c # r \<Rightarrow>
          c = 0x24 \<and>
          (let whole = takeWhile digit_or_comma r; frac = dropWhile digit_or_comma r in
           whole \<noteq> [] \<and> is_digit (hd whole) \<and> is_digit (last whole) \<and>
           (frac = [] \<or> (hd frac = 0x2E \<and> tl frac \<noteq> [] \<and> list_all is_digit (tl frac)))))"

text \<open>
  News categories in the words of the specification: an ordered list of topics, each with
  its keyword set; the first topic with a keyword in the text wins, and \<open>general\<close> is the
  answer when there is none.
\<close>

definition topic_keywords :: "(jsstring \<times> jsstring list) list" where
  "topic_keywords =
     [(js ''bitcoin'', [js ''bitcoin'', js ''btc'']),
      (js ''ethereum'', [js ''ethereum'', js ''eth'']),
      (js ''defi'', [js ''defi'', js ''decentralized'']),
      (js ''regulation'', [js ''regulation'', js ''regulatory'', ja_regulation]),
      (js ''technology'', [js ''blockchain'', js ''technology'', js ''tech''])]"

fun first_topic :: "(jsstring \<times> jsstring list) list \<Rightarrow> jsstring \<Rightarrow> jsstring" where
  "first_topic [] text = js ''general''"
| "first_topic ((topic, keywords) # topics) text =
     (if list_ex (str_includes text) keywords then topic else first_topic topics text)"

text \<open>
  Counting occurrences, as the specification words the sentiment score: the number of
  positions of the text at which a keyword starts, summed over the keywords of a list.
\<close>

fun count_occurrences :: "jsstring \<Rightarrow> jsstring \<Rightarrow> nat" where
  "count_occurrences [] word = 0"
| "count_occurrences (c # cs) word =
     (if startsWith (c # cs) word then 1 else 0) + count_occurrences cs word"

definition occurrence_score :: "jsstring list \<Rightarrow> jsstring \<Rightarrow> nat" where
  "occurrence_score keywords text = sum_list (map (count_occurrences text) keywords)"

text \<open>
  The form the price pattern matches: \<open>$\<close>, then one or more digits or commas, then
  optionally a point and zero or more digits.
\<close>

definition price_token :: "jsstring \<Rightarrow> bool" where
  "price_token m \<longleftrightarrow>
     (\<exists>a f. m = 0x24 # a @ f \<and> a \<noteq> [] \<and> list_all digit_or_comma a
            \<and> (f = [] \<or> (\<exists>b. f = 0x2E # b \<and> list_all is_digit b)))"

text \<open>
  The tiers of the price acquisition in the words of the specification: a tier fails on a
  transport failure or a response that is not a success; the fallback answers in its shape
  when its body is an object whose entry for the entity is an object with \<open>usd\<close> and
  \<open>usd_24h_change\<close>.
\<close>

definition primary_failed :: "'n network \<Rightarrow> jsstring \<Rightarrow> bool" where
  "primary_failed net cryptoId \<longleftrightarrow>
     (case net (primary_url cryptoId) of Inl e \<Rightarrow> True | Inr response \<Rightarrow> \<not> ok response)"

definition fallback_failed :: "'n network \<Rightarrow> jsstring \<Rightarrow> bool" where
  "fallback_failed net cryptoId \<longleftrightarrow>
     (case net (fallback_url cryptoId) of Inl e \<Rightarrow> True | Inr response \<Rightarrow> \<not> ok response)"

definition fallback_shape :: "'n network \<Rightarrow> jsstring \<Rightarrow> 'n jsval \<Rightarrow> 'n jsval \<Rightarrow> bool" where
  "fallback_shape net cryptoId usd change \<longleftrightarrow>
     (case net (fallback_url cryptoId) of
        Inl e \<Rightarrow> False
      | Inr response \<Rightarrow>
          ok response \<and>
          (case json response of
             Inr (JObj props) \<Rightarrow>
               (case map_of props cryptoId of
                  Some (JObj entry) \<Rightarrow>
                    map_of entry (js ''usd'') = Some usd
                    \<and> map_of entry (js ''usd_24h_change'') = Some change
                | _ \<Rightarrow> False)
           | _ \<Rightarrow> False))"

text \<open>
  The example of the specification: the primary endpoint answers HTTP 500 for bitcoin and
  the fallback answers \<open>{bitcoin: {usd: 50000, usd_24h_change: 2.5}}\<close>.
\<close>

definition example_network :: "real network" where
  "example_network url =
     (if url = primary_url (js ''bitcoin'') then Inr \<lparr>ok = False, json = Inl SyntaxError\<rparr>
      else if url = fallback_url (js ''bitcoin'') then
        Inr \<lparr>ok = True,
             json = Inr (JObj [(js ''bitcoin'',
                      JObj [(js ''usd'', JNum 50000), (js ''usd_24h_change'', JNum 2.5)])])\<rparr>
      else Inl TypeError)"

text \<open>
  The backend is unreachable (every request to it is rejected) and the public price
  endpoint answers \<open>{bitcoin: {usd: 50000, usd_24h_change: 2.5}}\<close> for bitcoin.
\<close>

definition backend_down_network :: "real network" where
  "backend_down_network url =
     (if url = fallback_url (js ''bitcoin'') \<or> url = coingecko_url (js ''bitcoin'') then
        Inr \<lparr>ok = True,
             json = Inr (JObj [(js ''bitcoin'',
                      JObj [(js ''usd'', JNum 50000), (js ''usd_24h_change'', JNum 2.5)])])\<rparr>
      else Inl TypeError)"

section \<open>Auxiliary definitions of the proofs\<close>

text \<open>What the first choice of the price pattern leaves of the text: of the text after the
  digits and commas, and of the text after the dollar sign.\<close>

definition frac_rest :: "jsstring \<Rightarrow> jsstring" where
  "frac_rest r1 =
     (case r1 of [] \<Rightarrow> [] | c # r2 \<Rightarrow> if c = 0x2E then dropWhile is_digit r2 else dropWhile is_digit r1)"

definition price_rest :: "jsstring \<Rightarrow> jsstring" where
  "price_rest r = frac_rest (dropWhile digit_or_comma r)"

text \<open>The sentiment and the recommendation metric of the dashboard, each as one value.\<close>

definition sentiment_of :: "jsstring \<Rightarrow> metric" where
  "sentiment_of text =
     (if str_includes text (js ''POSITIVE'') \<or> str_includes text ja_positive
      then \<lparr>label = sentiment_label, value_m = ja_positive, class_m = js ''sentiment-positive''\<rparr>
      else if str_includes text (js ''NEGATIVE'') \<or> str_includes text ja_negative
      then \<lparr>label = sentiment_label, value_m = ja_negative, class_m = js ''sentiment-negative''\<rparr>
      else \<lparr>label = sentiment_label, value_m = ja_neutral, class_m = js ''sentiment-neutral''\<rparr>)"

definition recommendation_of :: "jsstring \<Rightarrow> metric" where
  "recommendation_of text =
     (if str_includes text (js ''BUY'') \<or> str_includes text ja_buy
      then \<lparr>label = recommendation_label, value_m = js ''BUY'', class_m = js ''sentiment-positive''\<rparr>
      else if str_includes text (js ''SELL'') \<or> str_includes text ja_sell
      then \<lparr>label = recommendation_label, value_m = js ''SELL'', class_m = js ''sentiment-negative''\<rparr>
      else \<lparr>label = recommendation_label, value_m = js ''HOLD'', class_m = js ''sentiment-neutral''\<rparr>)"

section \<open>Strings: basic facts\<close>

lemma startsWith_iff: "startsWith s p \<longleftrightarrow> (\<exists>r. s = p @ r)"
  by (induction s p rule: startsWith.induct) auto

lemma str_includes_iff: "str_includes s sub \<longleftrightarrow> (\<exists>a b. s = a @ sub @ b)"
proof (induction s)
  case Nil
  then show ?case by (auto simp: startsWith_iff)
next
  case (Cons c cs)
  show ?case
  proof
    assume "str_includes (c # cs) sub"
    then consider "startsWith (c # cs) sub" | "str_includes cs sub" by auto
    then show "\<exists>a b. c # cs = a @ sub @ b"
    proof cases
      case 1
      then obtain r where "c # cs = sub @ r" by (auto simp: startsWith_iff)
      then have "c # cs = [] @ sub @ r" by simp
      then show ?thesis by blast
    next
      case 2
      then obtain a b where "cs = a @ sub @ b" using Cons.IH by auto
      then have "c # cs = (c # a) @ sub @ b" by simp
      then show ?thesis by blast
    qed
  next
    assume "\<exists>a b. c # cs = a @ sub @ b"
    then obtain a b where ab: "c # cs = a @ sub @ b" by auto
    show "str_includes (c # cs) sub"
    proof (cases a)
      case Nil
      then have "startsWith (c # cs) sub" using ab by (simp add: startsWith_iff)
      then show ?thesis by simp
    next
      case (Cons x a')
      then have "cs = a' @ sub @ b" using ab by simp
      then show ?thesis using Cons.IH by auto
    qed
  qed
qed

lemma str_includes_single: "str_includes s [c] \<longleftrightarrow> c \<in> set s"
  by (induction s) auto

lemma split_on_nonempty: "split_on sep s \<noteq> []"
  by (induction s) (auto split: list.splits)

lemma split_on_append: "split_on sep (a @ sep # b) = split_on sep a @ split_on sep b"
  by (induction a) (auto split: list.splits simp: split_on_nonempty)

lemma split_on_member: "c \<in> set s \<Longrightarrow> \<exists>p q r. split_on c s = p # q # r"
proof (induction s)
  case Nil
  then show ?case by simp
next
  case (Cons x s)
  show ?case
  proof (cases "x = c")
    case True
    obtain q r where "split_on c s = q # r"
      using split_on_nonempty[of c s] by (cases "split_on c s") auto
    then show ?thesis using True by simp
  next
    case False
    then have "c \<in> set s" using Cons.prems by simp
    then obtain p q r where "split_on c s = p # q # r" using Cons.IH by blast
    then show ?thesis using False by simp
  qed
qed

section \<open>Section splitting: the loop\<close>

text \<open>A line with a colon splits into at least two pieces, so the destructuring of a
  metric line never meets \<open>undefined\<close>.\<close>

lemma metric_of_line_total:
  assumes "str_includes line (js '':'')"
  shows "\<exists>m. metric_of_line line = Inr m"
proof -
  have "0x3A \<in> set line" using assms by (simp add: str_includes_single)
  then obtain p q r where "split_on 0x3A line = p # q # r" using split_on_member by blast
  then show ?thesis by (simp add: metric_of_line_def)
qed

lemma sections_loop_total:
  "\<exists>secs cur. sections_loop lines sections currentSection = Inr (secs, cur)"
proof (induction lines sections currentSection rule: sections_loop.induct)
  case (1 sections currentSection)
  then show ?case by simp
next
  case (2 line lines sections currentSection)
  then show ?case
    using metric_of_line_total[of line]
    by (auto split: option.splits sum.splits)
qed

text \<open>So \<open>parseAnalysisSections\<close> returns a list of sections for every text.\<close>

lemma parseAnalysisSections_total: "\<exists>secs. parseAnalysisSections analysisText = Inr secs"
proof -
  obtain secs cur where "sections_loop (split_on 0x0A analysisText) [] None = Inr (secs, cur)"
    using sections_loop_total by blast
  then show ?thesis by (simp add: parseAnalysisSections_def Let_def)
qed

text \<open>While no section is open, lines that are no headings change nothing.\<close>

lemma sections_loop_no_heading:
  "\<forall>l \<in> set lines. \<not> startsWith l (js ''##'') \<Longrightarrow>
   sections_loop (lines @ others) sections None = sections_loop others sections None"
  by (induction lines) auto

text \<open>Once a section is open, one stays open to the end.\<close>

lemma sections_loop_open:
  "sections_loop lines sections (Some s) = Inr (secs, cur) \<Longrightarrow> cur \<noteq> None"
  by (induction lines sections "Some s" arbitrary: s rule: sections_loop.induct)
     (auto split: if_splits sum.splits)

lemma first_line_heading:
  assumes "startsWith rest (js ''##'')"
  shows "\<exists>l ls. split_on 0x0A rest = l # ls \<and> startsWith l (js ''##'')"
proof -
  obtain r where r: "rest = 0x23 # 0x23 # r" using assms by (auto simp: startsWith_iff)
  obtain p ps where "split_on 0x0A r = p # ps"
    using split_on_nonempty[of "0x0A" r] by (cases "split_on 0x0A r") auto
  then show ?thesis using r by simp
qed

section \<open>Section splitting: the claims\<close>

text \<open>
  C4. A document in which no line starts with the heading marker \<open>##\<close> splits into exactly
  one section: its title is the fixed fallback label, its body is the whole document (each
  line feed written as \<open><br>\<close>) and it has no metrics.
\<close>

theorem no_heading_single_section:
  assumes "\<forall>l \<in> set (split_on 0x0A analysisText). \<not> startsWith l (js ''##'')"
  shows "parseAnalysisSections analysisText =
           Inr [\<lparr>title = fallback_title, content = replace_newlines analysisText, metrics = []\<rparr>]"
proof -
  have "sections_loop (split_on 0x0A analysisText @ []) [] None = sections_loop [] [] None"
    using assms by (rule sections_loop_no_heading)
  then show ?thesis by (simp add: parseAnalysisSections_def push_current_def)
qed

theorem no_heading_single_section_witness:
  "parseAnalysisSections (js ''BTC looks stable.'' @ [0x0A] @ js ''# no second-level heading'') =
     Inr [\<lparr>title = fallback_title,
           content = js ''BTC looks stable.<br># no second-level heading'', metrics = []\<rparr>]"
  using no_heading_single_section
          [of "js ''BTC looks stable.'' @ [0x0A] @ js ''# no second-level heading''"]
  by simp

text \<open>
  C10. In a document with a heading line, whatever precedes the first heading line is
  discarded: the sections are those of the document that starts at the first heading, so
  no title, body or metric comes from the lines before it.
\<close>

theorem preamble_discarded:
  assumes pre: "\<forall>l \<in> set (split_on 0x0A preamble). \<not> startsWith l (js ''##'')"
    and rest: "startsWith rest (js ''##'')"
  shows "parseAnalysisSections (preamble @ 0x0A # rest) = parseAnalysisSections rest"
proof -
  obtain l ls where l: "split_on 0x0A rest = l # ls" "startsWith l (js ''##'')"
    using first_line_heading[OF rest] by blast
  have loop: "sections_loop (split_on 0x0A (preamble @ 0x0A # rest)) [] None
              = sections_loop (split_on 0x0A rest) [] None"
    by (simp add: split_on_append sections_loop_no_heading[OF pre])
  obtain secs cur where r: "sections_loop (split_on 0x0A rest) [] None = Inr (secs, cur)"
    using sections_loop_total by blast
  have "sections_loop ls [] (Some \<lparr>title = heading_title l, content = [], metrics = []\<rparr>)
        = Inr (secs, cur)"
    using r l by (simp add: push_current_def)
  then have "cur \<noteq> None" by (rule sections_loop_open)
  then have "push_current secs cur \<noteq> []" by (auto simp: push_current_def)
  then show ?thesis using loop r by (simp add: parseAnalysisSections_def)
qed

theorem preamble_discarded_witness:
  "parseAnalysisSections (js ''Price: $5 now'' @ 0x0A # js ''## Summary'' @ [0x0A] @ js ''steady'')
     = parseAnalysisSections (js ''## Summary'' @ [0x0A] @ js ''steady'')
   \<and> parseAnalysisSections (js ''## Summary'' @ [0x0A] @ js ''steady'')
     = Inr [\<lparr>title = js ''Summary'', content = js ''steady<br>'', metrics = []\<rparr>]"
  using preamble_discarded
          [of "js ''Price: $5 now''" "js ''## Summary'' @ [0x0A] @ js ''steady''"]
  by (simp add: parseAnalysisSections_def push_current_def heading_title_def isWhiteSpace_def)

section \<open>Section splitting: metric lines\<close>

lemma split_on_absent: "c \<notin> set s \<Longrightarrow> split_on c s = [s]"
  by (induction s) auto

text \<open>With one colon in the line, the value is all that follows the colon, trimmed.\<close>

lemma metric_of_line_one_colon:
  assumes "0x3A \<notin> set l" "0x3A \<notin> set v"
  shows "metric_of_line (l @ 0x3A # v) = Inr \<lparr>sm_label = trim l, sm_value = trim v\<rparr>"
  using assms by (simp add: metric_of_line_def split_on_append split_on_absent)

text \<open>With a second colon, the value stops there: what follows it is in neither the metric
  nor the body.\<close>

lemma metric_of_line_two_colons:
  assumes "0x3A \<notin> set l" "0x3A \<notin> set v"
  shows "metric_of_line (l @ 0x3A # v @ 0x3A # w) = Inr \<lparr>sm_label = trim l, sm_value = trim v\<rparr>"
proof -
  obtain p ps where "split_on 0x3A w = p # ps"
    using split_on_nonempty[of "0x3A" w] by (cases "split_on 0x3A w") auto
  then show ?thesis
    using assms by (simp add: metric_of_line_def split_on_append split_on_absent)
qed

text \<open>
  C5. A line with \<open>$\<close> and \<open>:\<close> inside an open section becomes a metric and stays out of the
  body, and its label is the trimmed text left of the first colon. Its value, however, is
  the trimmed text between the first and the second colon: for the line
  \<open>Target: $50,000 (ETA: 3 days)\<close> the value is \<open>$50,000 (ETA\<close>, not the text right of the
  separator.
\<close>

theorem metric_line_second_colon_truncates:
  "parseAnalysisSections (js ''## Targets'' @ [0x0A] @ js ''Target: $50,000 (ETA: 3 days)'') =
     Inr [\<lparr>title = js ''Targets'', content = [],
           metrics = [\<lparr>sm_label = js ''Target'', sm_value = js ''$50,000 (ETA''\<rparr>]\<rparr>]"
  by (simp add: parseAnalysisSections_def push_current_def metric_of_line_def heading_title_def
        trim_def isWhiteSpace_def)

section \<open>Refresh timers\<close>

lemma saveSettings_keeps_timers: "set (timers app) \<subseteq> set (timers (saveSettings now f app))"
  by (auto simp: saveSettings_def startRealTimeUpdates_def setInterval_def)

text \<open>
  C9. Saving a new update frequency starts two more timers and clears none: after the
  dashboard is created at time 0 and the frequency is set to 10 seconds at 5000 ms, four
  timers run, and at 30000 ms the market refresh fires from the timer of the old 30 second
  interval (the new one fires at 25000 and 35000 ms).
\<close>

theorem old_timers_keep_firing:
  "timers (saveSettings 5000 10 (new_dashboard 0)) =
     [\<lparr>started = 0, delay = 30000, task = LoadMarketOverview\<rparr>,
      \<lparr>started = 0, delay = 60000, task = LoadCryptoNews\<rparr>,
      \<lparr>started = 5000, delay = 10000, task = LoadMarketOverview\<rparr>,
      \<lparr>started = 5000, delay = 20000, task = LoadCryptoNews\<rparr>]
   \<and> due_timers (saveSettings 5000 10 (new_dashboard 0)) 30000 =
     [\<lparr>started = 0, delay = 30000, task = LoadMarketOverview\<rparr>]"
  by (simp add: saveSettings_def new_dashboard_def startRealTimeUpdates_def setInterval_def
        due_timers_def fires_def)

section \<open>Alerts\<close>

text \<open>
  C8, as the code has it. An alert with an empty symbol, an empty condition, or a price that
  is \<open>NaN\<close> or zero is rejected: a warning toast is shown and neither the alert list nor
  the stored list changes. Every other alert, whatever the sign of its price, is appended
  to the alert list, which is then stored (when the storage accepts the write), and a
  success toast is shown.
\<close>

theorem saveAlert_guard:
  "(crypto_field = [] \<or> condition_field = [] \<or> price_field = NaN \<or> price_field = Finite 0 \<longrightarrow>
      saveAlert crypto_field condition_field price_field now setItem_ok app
        = app\<lparr>toasts := toasts app @ [(msg_fill_all, js ''warning'')]\<rparr>)
   \<and> (crypto_field \<noteq> [] \<and> condition_field \<noteq> [] \<and> price_field \<noteq> NaN \<and> price_field \<noteq> Finite 0 \<longrightarrow>
      alerts (saveAlert crypto_field condition_field price_field now setItem_ok app)
        = alerts app @ [\<lparr>alert_id = now, crypto = crypto_field, condition = condition_field,
                           price = price_field, created = now, active = True\<rparr>]
      \<and> stored_alerts (saveAlert crypto_field condition_field price_field now setItem_ok app)
        = (if setItem_ok
           then Some (alerts (saveAlert crypto_field condition_field price_field now setItem_ok app))
           else stored_alerts app)
      \<and> toasts (saveAlert crypto_field condition_field price_field now setItem_ok app)
        = toasts app @ [(msg_alert_set, js ''success'')])"
  by (cases price_field)
     (auto simp: saveAlert_def falsy_num_def showToast_def saveAlerts_def Let_def)

text \<open>The two examples of the specification: a threshold of 50000 is accepted and listed,
  a threshold of 0 is rejected.\<close>

theorem saveAlert_guard_witness:
  "alerts (saveAlert (js ''bitcoin'') (js ''above'') (Finite 50000) 1700000000000 True
             \<lparr>alerts = [], stored_alerts = None, toasts = []\<rparr>)
     = [\<lparr>alert_id = 1700000000000, crypto = js ''bitcoin'', condition = js ''above'',
          price = Finite 50000, created = 1700000000000, active = True\<rparr>]
   \<and> saveAlert (js ''bitcoin'') (js ''above'') (Finite 0) 1700000000000 True
        \<lparr>alerts = [], stored_alerts = None, toasts = []\<rparr>
     = \<lparr>alerts = [], stored_alerts = None, toasts = [(msg_fill_all, js ''warning'')]\<rparr>"
  using saveAlert_guard[of "js ''bitcoin''" "js ''above''" "Finite 50000" 1700000000000 True
          "\<lparr>alerts = [], stored_alerts = None, toasts = []\<rparr>"]
        saveAlert_guard[of "js ''bitcoin''" "js ''above''" "Finite 0" 1700000000000 True
          "\<lparr>alerts = [], stored_alerts = None, toasts = []\<rparr>"]
  by simp

text \<open>A threshold of -5 is not a positive number, and the alert is accepted and stored.\<close>

theorem negative_threshold_accepted:
  "\<not> (0 < (-5 :: real))
   \<and> saveAlert (js ''bitcoin'') (js ''below'') (Finite (-5)) 1700000000000 True
        \<lparr>alerts = [], stored_alerts = None, toasts = []\<rparr>
     = \<lparr>alerts = [\<lparr>alert_id = 1700000000000, crypto = js ''bitcoin'', condition = js ''below'',
                     price = Finite (-5), created = 1700000000000, active = True\<rparr>],
        stored_alerts = Some [\<lparr>alert_id = 1700000000000, crypto = js ''bitcoin'',
                     condition = js ''below'', price = Finite (-5), created = 1700000000000,
                     active = True\<rparr>],
        toasts = [(msg_alert_set, js ''success'')]\<rparr>"
  by (simp add: saveAlert_def falsy_num_def showToast_def saveAlerts_def Let_def)

section \<open>News categories\<close>

text \<open>
  C6. The category of a news item is the first topic, in the order bitcoin, ethereum,
  defi, regulation, technology, one of whose keywords is a substring of the lower-cased
  title and summary (joined by a space), and \<open>general\<close> when no topic has one.
\<close>

theorem categorizeNews_first_topic:
  "categorizeNews toLowerCase news_title summary
     = first_topic topic_keywords (toLowerCase (news_title @ js '' '' @ summary))"
  by (simp add: categorizeNews_def topic_keywords_def Let_def)

theorem categorizeNews_first_topic_witness:
  "categorizeNews toLowerCase_ascii (js ''Ethereum ETF overtakes BTC'') (js ''New regulation'')
     = js ''bitcoin''
   \<and> first_topic topic_keywords
        (toLowerCase_ascii (js ''Ethereum ETF overtakes BTC'' @ js '' '' @ js ''New regulation''))
     = js ''bitcoin''
   \<and> categorizeNews toLowerCase_ascii (js ''Markets are quiet'') (js ''Nothing to report'')
     = js ''general''"
  using categorizeNews_first_topic
          [of toLowerCase_ascii "js ''Ethereum ETF overtakes BTC''" "js ''New regulation''"]
        categorizeNews_first_topic
          [of toLowerCase_ascii "js ''Markets are quiet''" "js ''Nothing to report''"]
  by (simp add: topic_keywords_def toLowerCase_ascii_def ja_regulation_def)

section \<open>The matcher and the language of a pattern\<close>

text \<open>What the matcher leaves are exactly the rests after a prefix in the language.\<close>

lemma star_run_set: "set (star_run p s) = {t. \<exists>m. s = m @ t \<and> list_all p m}"
proof (induction s)
  case Nil
  then show ?case by auto
next
  case (Cons c cs)
  show ?case
  proof (cases "p c")
    case True
    have "{t. \<exists>m. c # cs = m @ t \<and> list_all p m}
          = insert (c # cs) {t. \<exists>m. cs = m @ t \<and> list_all p m}" (is "?L = ?R")
    proof
      show "?L \<subseteq> ?R"
      proof
        fix t assume "t \<in> ?L"
        then obtain m where m: "c # cs = m @ t" "list_all p m" by auto
        show "t \<in> ?R"
        proof (cases m)
          case Nil
          then show ?thesis using m by simp
        next
          case (Cons x m')
          then have "cs = m' @ t" "list_all p m'" using m by auto
          then show ?thesis by auto
        qed
      qed
      show "?R \<subseteq> ?L"
      proof
        fix t assume "t \<in> ?R"
        then consider "t = c # cs" | m where "cs = m @ t" "list_all p m" by auto
        then show "t \<in> ?L"
        proof cases
          case 1
          then have "c # cs = [] @ t \<and> list_all p []" by simp
          then show ?thesis by blast
        next
          case 2
          then have "c # cs = (c # m) @ t \<and> list_all p (c # m)" using True by simp
          then show ?thesis by blast
        qed
      qed
    qed
    then show ?thesis using True Cons.IH by simp
  next
    case False
    have "{t. \<exists>m. c # cs = m @ t \<and> list_all p m} = {c # cs}" (is "?L = _")
    proof
      show "?L \<subseteq> {c # cs}"
      proof
        fix t assume "t \<in> ?L"
        then obtain m where m: "c # cs = m @ t" "list_all p m" by auto
        then have "m = []" using False by (cases m) auto
        then show "t \<in> {c # cs}" using m by simp
      qed
      have "c # cs = [] @ (c # cs) \<and> list_all p []" by simp
      then show "{c # cs} \<subseteq> ?L" by blast
    qed
    then show ?thesis using False by simp
  qed
qed

lemma rx_run_set: "set (rx_run r s) = {t. \<exists>m. s = m @ t \<and> m \<in> lang r}"
proof (induction r arbitrary: s)
  case (RChar p)
  then show ?case by (cases s) auto
next
  case (RSeq a b)
  have "set (rx_run (RSeq a b) s) = (\<Union>t \<in> set (rx_run a s). set (rx_run b t))" by simp
  also have "\<dots> = {u. \<exists>m1 t m2. s = m1 @ t \<and> m1 \<in> lang a \<and> t = m2 @ u \<and> m2 \<in> lang b}"
    unfolding RSeq.IH by blast
  also have "\<dots> = {u. \<exists>m. s = m @ u \<and> m \<in> lang (RSeq a b)}"
  proof -
    have "(\<exists>m1 t m2. s = m1 @ t \<and> m1 \<in> lang a \<and> t = m2 @ u \<and> m2 \<in> lang b)
          \<longleftrightarrow> (\<exists>m. s = m @ u \<and> m \<in> lang (RSeq a b))" for u
    proof
      assume "\<exists>m1 t m2. s = m1 @ t \<and> m1 \<in> lang a \<and> t = m2 @ u \<and> m2 \<in> lang b"
      then obtain m1 m2 where "s = (m1 @ m2) @ u" "m1 \<in> lang a" "m2 \<in> lang b" by auto
      then show "\<exists>m. s = m @ u \<and> m \<in> lang (RSeq a b)" by (intro exI[of _ "m1 @ m2"]) auto
    next
      assume "\<exists>m. s = m @ u \<and> m \<in> lang (RSeq a b)"
      then obtain m1 m2 where "s = (m1 @ m2) @ u" "m1 \<in> lang a" "m2 \<in> lang b" by auto
      then have "s = m1 @ (m2 @ u) \<and> m1 \<in> lang a \<and> m2 @ u = m2 @ u \<and> m2 \<in> lang b" by simp
      then show "\<exists>m1 t m2. s = m1 @ t \<and> m1 \<in> lang a \<and> t = m2 @ u \<and> m2 \<in> lang b" by blast
    qed
    then show ?thesis by simp
  qed
  finally show ?case .
next
  case (ROpt a)
  have "{t. \<exists>m. s = m @ t \<and> m \<in> lang (ROpt a)} = insert s {t. \<exists>m. s = m @ t \<and> m \<in> lang a}"
    by auto
  then show ?case using ROpt.IH by simp
next
  case (RStar p)
  then show ?case by (simp add: star_run_set)
next
  case (RPlus p)
  show ?case
  proof (cases s)
    case Nil
    then show ?thesis by auto
  next
    case (Cons c cs)
    show ?thesis
    proof (cases "p c")
      case True
      have "{t. \<exists>m. c # cs = m @ t \<and> m \<noteq> [] \<and> list_all p m} = {t. \<exists>m. cs = m @ t \<and> list_all p m}"
        (is "?L = ?R")
      proof
        show "?L \<subseteq> ?R"
        proof
          fix t assume "t \<in> ?L"
          then obtain m where m: "c # cs = m @ t" "m \<noteq> []" "list_all p m" by auto
          then obtain m' where "m = c # m'" by (cases m) auto
          then have "cs = m' @ t" "list_all p m'" using m by auto
          then show "t \<in> ?R" by auto
        qed
        show "?R \<subseteq> ?L"
        proof
          fix t assume "t \<in> ?R"
          then obtain m where "cs = m @ t" "list_all p m" by auto
          then have "c # cs = (c # m) @ t \<and> c # m \<noteq> [] \<and> list_all p (c # m)" using True by simp
          then show "t \<in> ?L" by blast
        qed
      qed
      then show ?thesis using Cons True by (simp add: star_run_set)
    next
      case False
      have "{t. \<exists>m. c # cs = m @ t \<and> m \<noteq> [] \<and> list_all p m} = {}"
      proof -
        have False if "c # cs = m @ t" "m \<noteq> []" "list_all p m" for m t
          using that False by (cases m) auto
        then show ?thesis by blast
      qed
      then show ?thesis using Cons False by simp
    qed
  qed
qed

lemma rx_run_empty_iff: "rx_run r s = [] \<longleftrightarrow> \<not> (\<exists>m t. s = m @ t \<and> m \<in> lang r)"
proof -
  have "rx_run r s = [] \<longleftrightarrow> set (rx_run r s) = {}" by simp
  also have "\<dots> \<longleftrightarrow> \<not> (\<exists>m t. s = m @ t \<and> m \<in> lang r)" unfolding rx_run_set by blast
  finally show ?thesis .
qed

lemma occurs_Nil: "occurs r [] \<longleftrightarrow> [] \<in> lang r"
  by (auto simp: occurs_def)

lemma occurs_Cons:
  "occurs r (c # cs) \<longleftrightarrow> (\<exists>m t. c # cs = m @ t \<and> m \<in> lang r) \<or> occurs r cs"
proof
  assume "occurs r (c # cs)"
  then obtain pre m post where s: "c # cs = pre @ m @ post" "m \<in> lang r" by (auto simp: occurs_def)
  show "(\<exists>m t. c # cs = m @ t \<and> m \<in> lang r) \<or> occurs r cs"
  proof (cases pre)
    case Nil
    then show ?thesis using s by auto
  next
    case (Cons x pre')
    then have "cs = pre' @ m @ post" using s by simp
    then show ?thesis using s(2) by (auto simp: occurs_def)
  qed
next
  assume "(\<exists>m t. c # cs = m @ t \<and> m \<in> lang r) \<or> occurs r cs"
  then show "occurs r (c # cs)"
  proof
    assume "\<exists>m t. c # cs = m @ t \<and> m \<in> lang r"
    then obtain m t where "c # cs = [] @ m @ t" "m \<in> lang r" by auto
    then show ?thesis unfolding occurs_def by blast
  next
    assume "occurs r cs"
    then obtain pre m post where "cs = pre @ m @ post" "m \<in> lang r" by (auto simp: occurs_def)
    then have "c # cs = (c # pre) @ m @ post" "m \<in> lang r" by auto
    then show ?thesis unfolding occurs_def by blast
  qed
qed

lemma rx_exec_None_iff: "rx_exec r s = None \<longleftrightarrow> \<not> occurs r s"
proof (induction s)
  case Nil
  have "rx_run r [] = [] \<longleftrightarrow> [] \<notin> lang r" by (simp add: rx_run_empty_iff)
  then show ?case by (cases "rx_run r []") (auto simp: occurs_Nil)
next
  case (Cons c cs)
  show ?case
  proof (cases "rx_run r (c # cs)")
    case Nil
    then have "\<not> (\<exists>m t. c # cs = m @ t \<and> m \<in> lang r)" by (simp add: rx_run_empty_iff)
    then show ?thesis using Nil Cons.IH by (simp add: occurs_Cons)
  next
    case (Cons t ts)
    then have "rx_run r (c # cs) \<noteq> []" by simp
    then have "\<exists>m t. c # cs = m @ t \<and> m \<in> lang r" by (simp add: rx_run_empty_iff)
    then show ?thesis using Cons by (simp add: occurs_Cons)
  qed
qed

text \<open>The match: leftmost, and what remains after it is the matcher's first choice.\<close>

lemma rx_exec_Some:
  assumes "rx_exec r s = Some m"
  shows "\<exists>pre post rest. s = pre @ m @ post \<and> rx_run r (m @ post) = post # rest
           \<and> (\<forall>pre' m' post'. s = pre' @ m' @ post' \<and> m' \<in> lang r \<longrightarrow> length pre \<le> length pre')"
  using assms
proof (induction s)
  case Nil
  then obtain t ts where t: "rx_run r [] = t # ts" and m: "m = []"
    by (cases "rx_run r []") auto
  have "t \<in> set (rx_run r [])" using t by simp
  then have "t = []" unfolding rx_run_set by auto
  then have "[] = [] @ m @ [] \<and> rx_run r (m @ []) = [] # ts" using t m by simp
  then show ?case by (intro exI[of _ "[]"] exI[of _ ts]) auto
next
  case (Cons c cs)
  show ?case
  proof (cases "rx_run r (c # cs)")
    case Nil
    then have ex: "rx_exec r cs = Some m" using Cons.prems by simp
    then obtain pre post rest where p: "cs = pre @ m @ post" "rx_run r (m @ post) = post # rest"
      "\<forall>pre' m' post'. cs = pre' @ m' @ post' \<and> m' \<in> lang r \<longrightarrow> length pre \<le> length pre'"
      using Cons.IH by blast
    have nomatch: "\<not> (\<exists>m t. c # cs = m @ t \<and> m \<in> lang r)" using Nil by (simp add: rx_run_empty_iff)
    have "length (c # pre) \<le> length pre'" if "c # cs = pre' @ m' @ post'" "m' \<in> lang r" for pre' m' post'
    proof (cases pre')
      case Nil
      then show ?thesis using that nomatch by auto
    next
      case (Cons x q)
      then have "cs = q @ m' @ post'" using that by simp
      then have "length pre \<le> length q" using p(3) that(2) by blast
      then show ?thesis using Cons by simp
    qed
    then have "c # cs = (c # pre) @ m @ post \<and> rx_run r (m @ post) = post # rest
       \<and> (\<forall>pre' m' post'. c # cs = pre' @ m' @ post' \<and> m' \<in> lang r \<longrightarrow> length (c # pre) \<le> length pre')"
      using p by simp
    then show ?thesis by blast
  next
    case (Cons t ts)
    then have m: "m = take (length (c # cs) - length t) (c # cs)" using Cons.prems by simp
    have "t \<in> set (rx_run r (c # cs))" using Cons by simp
    then obtain m0 where m0: "c # cs = m0 @ t" unfolding rx_run_set by auto
    then have "m = m0" using m by simp
    then have "c # cs = [] @ m @ t \<and> rx_run r (m @ t) = t # ts" using m0 Cons by simp
    then show ?thesis by (intro exI[of _ "[]"] exI[of _ t] exI[of _ ts]) auto
  qed
qed

section \<open>The price pattern\<close>

lemma lang_seqI: "x \<in> lang a \<Longrightarrow> y \<in> lang b \<Longrightarrow> x @ y \<in> lang (RSeq a b)"
  by auto

lemma lang_price_rx: "m \<in> lang price_rx \<longleftrightarrow> price_token m"
proof
  assume "m \<in> lang price_rx"
  then obtain a z1 z2 where m: "m = [0x24] @ a @ z1 @ z2" "a \<noteq> []" "list_all digit_or_comma a"
      "z1 = [] \<or> z1 = [0x2E]" "list_all is_digit z2"
    unfolding price_rx_def by auto
  show "price_token m"
  proof (cases "z1 = []")
    case True
    show ?thesis
    proof (cases z2)
      case Nil
      then have "m = 0x24 # a @ []" using m True by simp
      then show ?thesis unfolding price_token_def using m by blast
    next
      case (Cons d ds)
      then have "digit_or_comma d" "list_all digit_or_comma ds"
        using m(5) by (auto simp: digit_or_comma_def list_all_iff)
      then have "m = 0x24 # (a @ z2) @ []" "a @ z2 \<noteq> []" "list_all digit_or_comma (a @ z2)"
        using m True Cons by auto
      then show ?thesis unfolding price_token_def by blast
    qed
  next
    case False
    then have "m = 0x24 # a @ (0x2E # z2)" using m by auto
    then show ?thesis unfolding price_token_def using m by blast
  qed
next
  assume "price_token m"
  then obtain a f where m: "m = 0x24 # a @ f" "a \<noteq> []" "list_all digit_or_comma a"
      "f = [] \<or> (\<exists>b. f = 0x2E # b \<and> list_all is_digit b)"
    unfolding price_token_def by blast
  have "\<exists>z1 z2. f = z1 @ z2 \<and> (z1 = [] \<or> z1 = [0x2E]) \<and> list_all is_digit z2"
    using m(4)
  proof
    assume "f = []"
    then have "f = [] @ [] \<and> list_all is_digit []" by simp
    then show ?thesis by blast
  next
    assume "\<exists>b. f = 0x2E # b \<and> list_all is_digit b"
    then obtain b where "f = [0x2E] @ b \<and> list_all is_digit b" by auto
    then show ?thesis by blast
  qed
  then obtain z1 z2 where z: "f = z1 @ z2" "z1 = [] \<or> z1 = [0x2E]" "list_all is_digit z2"
    by blast
  have "[0x24] \<in> lang (RChar (\<lambda>c. c = 0x24))" by simp
  moreover have "a \<in> lang (RPlus digit_or_comma)" using m(2,3) by simp
  moreover have "z1 \<in> lang (ROpt (RChar (\<lambda>c. c = 0x2E)))" using z(2) by auto
  moreover have "z2 \<in> lang (RStar is_digit)" using z(3) by simp
  ultimately have "[0x24] @ a @ z1 @ z2 \<in> lang price_rx"
    unfolding price_rx_def by (intro lang_seqI)
  then show "m \<in> lang price_rx" using m(1) z(1) by simp
qed

text \<open>A \<open>$\<close>-prefixed decimal number in the words of the specification has the form that
  the pattern matches.\<close>

lemma spec_dollar_number_token: "spec_dollar_number s \<Longrightarrow> price_token s"
proof -
  assume a: "spec_dollar_number s"
  then obtain r where s: "s = 0x24 # r" by (cases s) (auto simp: spec_dollar_number_def)
  let ?w = "takeWhile digit_or_comma r" and ?f = "dropWhile digit_or_comma r"
  have w: "?w \<noteq> []" and f: "?f = [] \<or> (hd ?f = 0x2E \<and> tl ?f \<noteq> [] \<and> list_all is_digit (tl ?f))"
    using a s by (auto simp: spec_dollar_number_def Let_def)
  have all: "list_all digit_or_comma ?w" by (simp add: list_all_iff) (meson set_takeWhileD)
  have f': "?f = [] \<or> (\<exists>b. ?f = 0x2E # b \<and> list_all is_digit b)"
  proof (cases "?f")
    case Nil
    then show ?thesis by simp
  next
    case (Cons x xs)
    then show ?thesis using f by auto
  qed
  have "s = 0x24 # ?w @ ?f" using s by simp
  then show ?thesis unfolding price_token_def using w all f' by blast
qed

lemma star_run_hd: "\<exists>rest. star_run p s = dropWhile p s # rest"
  by (induction s) auto

lemma not_cls_dot: "\<not> digit_or_comma 0x2E"
  by (simp add: digit_or_comma_def is_digit_def)

lemma frac_rest_le: "length (frac_rest x) \<le> length x"
proof (cases x)
  case Nil
  then show ?thesis by (simp add: frac_rest_def)
next
  case (Cons c r2)
  have "length (dropWhile is_digit r2) \<le> length r2" by (rule length_dropWhile_le)
  moreover have "length (dropWhile is_digit (c # r2)) \<le> length (c # r2)" by (rule length_dropWhile_le)
  ultimately show ?thesis using Cons by (auto simp: frac_rest_def)
qed

lemma frac_run_hd:
  "\<exists>rest. rx_run (RSeq (ROpt (RChar (\<lambda>c. c = 0x2E))) (RStar is_digit)) x = frac_rest x # rest"
proof (cases x)
  case Nil
  then show ?thesis by (simp add: frac_rest_def)
next
  case (Cons c r2)
  obtain q where q: "star_run is_digit r2 = dropWhile is_digit r2 # q" using star_run_hd by blast
  obtain q' where q': "star_run is_digit (c # r2) = dropWhile is_digit (c # r2) # q'"
    using star_run_hd by blast
  show ?thesis
  proof (cases "c = 0x2E")
    case True
    then show ?thesis using Cons q by (simp add: frac_rest_def)
  next
    case False
    then have "rx_run (RSeq (ROpt (RChar (\<lambda>c. c = 0x2E))) (RStar is_digit)) x = star_run is_digit (c # r2)"
      using Cons by simp
    then show ?thesis using Cons False q' by (simp add: frac_rest_def)
  qed
qed

lemma price_run_hd:
  assumes "rx_run price_rx s = t # ts"
  shows "\<exists>r. s = 0x24 # r \<and> t = price_rest r"
proof -
  obtain c r where s: "s = c # r" using assms by (cases s) (auto simp: price_rx_def)
  have c: "c = 0x24" using assms s by (auto simp: price_rx_def split: if_splits)
  let ?f = "rx_run (RSeq (ROpt (RChar (\<lambda>c. c = 0x2E))) (RStar is_digit))"
  have run: "rx_run price_rx s = concat (map ?f (rx_run (RPlus digit_or_comma) r))"
    using s c by (simp add: price_rx_def)
  obtain d ds where r: "r = d # ds" "digit_or_comma d"
    using assms run by (cases r) (auto split: if_splits)
  obtain rest1 where rest1: "star_run digit_or_comma ds = dropWhile digit_or_comma ds # rest1"
    using star_run_hd by blast
  have r1: "dropWhile digit_or_comma r = dropWhile digit_or_comma ds" using r by simp
  have run2: "rx_run price_rx s = ?f (dropWhile digit_or_comma r) @ concat (map ?f rest1)"
    unfolding run using r rest1 by simp
  obtain rest where "?f (dropWhile digit_or_comma r) = price_rest r # rest"
    unfolding price_rest_def using frac_run_hd by blast
  then have "rx_run price_rx s = price_rest r # (rest @ concat (map ?f rest1))"
    using run2 by simp
  then show ?thesis using assms s c by simp
qed

lemma price_rest_shortest:
  assumes "price_token m" "m @ u = 0x24 # r"
  shows "length (price_rest r) \<le> length u"
proof -
  obtain a f where m: "m = 0x24 # a @ f" "a \<noteq> []" "list_all digit_or_comma a"
      "f = [] \<or> (\<exists>b. f = 0x2E # b \<and> list_all is_digit b)"
    using assms(1) unfolding price_token_def by blast
  have r: "r = a @ f @ u" using assms(2) m(1) by simp
  have a: "\<And>x. x \<in> set a \<Longrightarrow> digit_or_comma x" using m(3) by (simp add: list_all_iff)
  have r1: "dropWhile digit_or_comma r = dropWhile digit_or_comma (f @ u)"
    using a r by (simp add: dropWhile_append2)
  from m(4) show ?thesis
  proof
    assume f: "f = []"
    have "length (price_rest r) \<le> length (dropWhile digit_or_comma u)"
      unfolding price_rest_def using r1 f frac_rest_le by simp
    also have "\<dots> \<le> length u" by (rule length_dropWhile_le)
    finally show ?thesis .
  next
    assume "\<exists>b. f = 0x2E # b \<and> list_all is_digit b"
    then obtain b where f: "f = 0x2E # b" and b: "list_all is_digit b" by blast
    have "dropWhile digit_or_comma r = 0x2E # b @ u" using r1 f not_cls_dot by simp
    then have "price_rest r = dropWhile is_digit (b @ u)" by (simp add: price_rest_def frac_rest_def)
    also have "\<dots> = dropWhile is_digit u" using b by (simp add: dropWhile_append2 list_all_iff)
    finally show ?thesis by (simp add: length_dropWhile_le)
  qed
qed

lemma priceMatch_leftmost_longest:
  assumes "rx_exec price_rx s = Some m"
  shows "\<exists>pre post. s = pre @ m @ post \<and> price_token m
     \<and> (\<forall>pre' m' post'. s = pre' @ m' @ post' \<and> price_token m' \<longrightarrow>
           length pre \<le> length pre' \<and> (length pre' = length pre \<longrightarrow> length m' \<le> length m))"
proof -
  obtain pre post rest where p: "s = pre @ m @ post" "rx_run price_rx (m @ post) = post # rest"
    "\<forall>pre' m' post'. s = pre' @ m' @ post' \<and> m' \<in> lang price_rx \<longrightarrow> length pre \<le> length pre'"
    using rx_exec_Some[OF assms] by blast
  have "post \<in> set (rx_run price_rx (m @ post))" using p(2) by simp
  then obtain m0 where "m @ post = m0 @ post" "m0 \<in> lang price_rx" unfolding rx_run_set by auto
  then have tok: "price_token m" by (simp add: lang_price_rx)
  obtain r where r: "m @ post = 0x24 # r" "post = price_rest r" using price_run_hd[OF p(2)] by blast
  have "length pre \<le> length pre' \<and> (length pre' = length pre \<longrightarrow> length m' \<le> length m)"
    if h: "s = pre' @ m' @ post'" "price_token m'" for pre' m' post'
  proof
    show "length pre \<le> length pre'" using p(3) h unfolding lang_price_rx by blast
    show "length pre' = length pre \<longrightarrow> length m' \<le> length m"
    proof
      assume "length pre' = length pre"
      then have eq: "m' @ post' = m @ post" using h(1) p(1) by (metis append_eq_append_conv)
      then have "length (price_rest r) \<le> length post'" using price_rest_shortest[OF h(2)] r(1) by simp
      then have "length post \<le> length post'" using r(2) by simp
      moreover have "length m' + length post' = length m + length post" using eq by (metis length_append)
      ultimately show "length m' \<le> length m" by simp
    qed
  qed
  then show ?thesis using p(1) tok by blast
qed

lemma price_token_tl: "price_token m \<Longrightarrow> js ''$'' @ tl m = m"
  by (auto simp: price_token_def)

lemma occurs_price: "occurs price_rx s \<longleftrightarrow> (\<exists>pre m post. s = pre @ m @ post \<and> price_token m)"
  by (simp add: occurs_def lang_price_rx)

lemma priceMetric_cases:
  "(\<not> occurs price_rx text \<and> priceMetric text = [])
   \<or> (occurs price_rx text \<and> (\<exists>m. rx_exec price_rx text = Some m
         \<and> priceMetric text = [\<lparr>label = price_label, value_m = js ''$'' @ tl m, class_m = []\<rparr>]))"
proof (cases "rx_exec price_rx text")
  case None
  then show ?thesis using rx_exec_None_iff[of price_rx "text"] by (simp add: priceMetric_def)
next
  case (Some m)
  then have "occurs price_rx text" using rx_exec_None_iff[of price_rx "text"] by simp
  then show ?thesis using Some by (simp add: priceMetric_def)
qed

lemma changeMetric_cases:
  "(\<not> occurs change_rx text \<and> changeMetric rt up down text = [])
   \<or> (occurs change_rx text \<and>
        (\<exists>v k. changeMetric rt up down text = [\<lparr>label = change_label, value_m = v, class_m = k\<rparr>]))"
proof (cases "rx_exec change_rx text")
  case None
  then show ?thesis using rx_exec_None_iff[of change_rx "text"] by (simp add: changeMetric_def)
next
  case (Some m)
  then have "occurs change_rx text" using rx_exec_None_iff[of change_rx "text"] by simp
  then show ?thesis using Some by (simp add: changeMetric_def Let_def)
qed

lemma parseAnalysisMetrics_parts:
  "parseAnalysisMetrics rt text =
     priceMetric text @ changeMetric rt (js ''price-up'') (js ''price-down'') text
       @ [sentiment_of text, recommendation_of text]"
  by (simp add: parseAnalysisMetrics_def sentiment_of_def recommendation_of_def Let_def)

lemma parseAnalysisMetrics_mobile_parts:
  "\<exists>s r. parseAnalysisMetrics_mobile rt text =
     priceMetric text @ changeMetric rt (js ''positive'') (js ''negative'') text @ [s, r]"
  by (simp add: parseAnalysisMetrics_mobile_def Let_def)

lemma labels_distinct:
  "price_label \<noteq> sentiment_label" "price_label \<noteq> recommendation_label"
  "change_label \<noteq> sentiment_label" "change_label \<noteq> recommendation_label"
  "sentiment_label \<noteq> recommendation_label" "price_label \<noteq> change_label"
  by (simp_all add: price_label_def change_label_def sentiment_label_def recommendation_label_def)

lemma label_sentiment_of: "label (sentiment_of text) = sentiment_label"
  by (simp add: sentiment_of_def)

lemma label_recommendation_of: "label (recommendation_of text) = recommendation_label"
  by (simp add: recommendation_of_def)

section \<open>Metric extraction: the claims\<close>

text \<open>
  What the price pattern extracts. When the text has a substring of the form \<open>$\<close>, one or
  more digits or commas, optionally a point and zero or more digits, both
  \<open>parseAnalysisMetrics\<close> emit the price metric first, with the empty class, and its value
  is the leftmost such substring and the longest one at that position, unchanged.
\<close>

theorem price_metric_leftmost_longest:
  assumes "text = p0 @ t0 @ q0" and "price_token t0"
  shows "\<exists>pre v post.
      text = pre @ v @ post \<and> price_token v
      \<and> (\<forall>pre' v' post'. text = pre' @ v' @ post' \<and> price_token v' \<longrightarrow>
            length pre \<le> length pre' \<and> (length pre' = length pre \<longrightarrow> length v' \<le> length v))
      \<and> (\<exists>others. parseAnalysisMetrics rt text
             = \<lparr>label = price_label, value_m = v, class_m = []\<rparr> # others)
      \<and> (\<exists>others. parseAnalysisMetrics_mobile rt text
             = \<lparr>label = price_label, value_m = v, class_m = []\<rparr> # others)"
proof -
  have "occurs price_rx text" using assms by (auto simp: occurs_price)
  then obtain v where v: "rx_exec price_rx text = Some v"
      and pm: "priceMetric text = [\<lparr>label = price_label, value_m = js ''$'' @ tl v, class_m = []\<rparr>]"
    using priceMetric_cases[of "text"] by blast
  obtain pre post where pp: "text = pre @ v @ post" "price_token v"
     "\<forall>pre' v' post'. text = pre' @ v' @ post' \<and> price_token v' \<longrightarrow>
            length pre \<le> length pre' \<and> (length pre' = length pre \<longrightarrow> length v' \<le> length v)"
    using priceMatch_leftmost_longest[OF v] by blast
  have "js ''$'' @ tl v = v" using pp(2) by (rule price_token_tl)
  then have v2: "priceMetric text = [\<lparr>label = price_label, value_m = v, class_m = []\<rparr>]"
    using pm by simp
  have d: "\<exists>others. parseAnalysisMetrics rt text
             = \<lparr>label = price_label, value_m = v, class_m = []\<rparr> # others"
    unfolding parseAnalysisMetrics_parts using v2 by simp
  obtain s r where "parseAnalysisMetrics_mobile rt text =
     priceMetric text @ changeMetric rt (js ''positive'') (js ''negative'') text @ [s, r]"
    using parseAnalysisMetrics_mobile_parts by blast
  then have m: "\<exists>others. parseAnalysisMetrics_mobile rt text
             = \<lparr>label = price_label, value_m = v, class_m = []\<rparr> # others"
    using v2 by simp
  show ?thesis using pp d m by blast
qed

text \<open>The example of the specification: the value is \<open>$45,230.50\<close>.\<close>

lemma ex_price_token: "price_token (js ''$45,230.50'')"
  unfolding price_token_def
  by (intro exI[of _ "js ''45,230''"] exI[of _ "js ''.50''"])
     (simp add: digit_or_comma_def is_digit_def)

theorem price_metric_leftmost_longest_witness:
  "priceMetric (js ''BTC is at $45,230.50 today'')
     = [\<lparr>label = price_label, value_m = js ''$45,230.50'', class_m = []\<rparr>]
   \<and> (\<forall>rt :: real number_ops. \<exists>pre v post.
      js ''BTC is at $45,230.50 today'' = pre @ v @ post \<and> price_token v
      \<and> (\<forall>pre' v' post'. js ''BTC is at $45,230.50 today'' = pre' @ v' @ post' \<and> price_token v' \<longrightarrow>
            length pre \<le> length pre' \<and> (length pre' = length pre \<longrightarrow> length v' \<le> length v))
      \<and> (\<exists>others. parseAnalysisMetrics rt (js ''BTC is at $45,230.50 today'')
             = \<lparr>label = price_label, value_m = v, class_m = []\<rparr> # others)
      \<and> (\<exists>others. parseAnalysisMetrics_mobile rt (js ''BTC is at $45,230.50 today'')
             = \<lparr>label = price_label, value_m = v, class_m = []\<rparr> # others))"
proof -
  have split: "js ''BTC is at $45,230.50 today'' = js ''BTC is at '' @ js ''$45,230.50'' @ js '' today''"
    by simp
  have ev: "priceMetric (js ''BTC is at $45,230.50 today'')
     = [\<lparr>label = price_label, value_m = js ''$45,230.50'', class_m = []\<rparr>]"
    by (simp add: priceMetric_def price_rx_def is_digit_def digit_or_comma_def)
  show ?thesis
    using ev price_metric_leftmost_longest[OF split ex_price_token] by blast
qed

text \<open>
  C2. The value of the price metric should be the first \<open>$\<close>-prefixed decimal number of the
  text, as it is written there. In \<open>BTC is at $45,230, up 2%\<close> that number is \<open>$45,230\<close>;
  the pattern also takes the comma of the sentence, and the value of the price metric is
  \<open>$45,230,\<close>, which is no decimal number. A full stop after the number is taken in the
  same way.
\<close>

theorem trailing_comma_in_price:
  "priceMetric (js ''BTC is at $45,230, up 2%'')
     = [\<lparr>label = price_label, value_m = js ''$45,230,'', class_m = []\<rparr>]
   \<and> \<not> spec_dollar_number (js ''$45,230,'')
   \<and> spec_dollar_number (js ''$45,230'')"
  by (simp add: priceMetric_def price_rx_def is_digit_def digit_or_comma_def spec_dollar_number_def)

text \<open>
  C3. The dashboard's extraction emits its metrics in the order price, change, sentiment,
  recommendation; the price and the change metric are there exactly when their pattern
  occurs in the text; there is exactly one sentiment metric (positive when a positive
  keyword occurs, else negative when a negative keyword occurs, else neutral) and exactly
  one recommendation metric (BUY when a buy keyword occurs, else SELL when a sell keyword
  occurs, else HOLD).
\<close>

theorem metrics_order_and_defaults:
  "map label (parseAnalysisMetrics rt text) =
      (if occurs price_rx text then [price_label] else [])
      @ (if occurs change_rx text then [change_label] else [])
      @ [sentiment_label, recommendation_label]
   \<and> filter (\<lambda>m. label m = sentiment_label) (parseAnalysisMetrics rt text) =
      [if str_includes text (js ''POSITIVE'') \<or> str_includes text ja_positive
       then \<lparr>label = sentiment_label, value_m = ja_positive, class_m = js ''sentiment-positive''\<rparr>
       else if str_includes text (js ''NEGATIVE'') \<or> str_includes text ja_negative
       then \<lparr>label = sentiment_label, value_m = ja_negative, class_m = js ''sentiment-negative''\<rparr>
       else \<lparr>label = sentiment_label, value_m = ja_neutral, class_m = js ''sentiment-neutral''\<rparr>]
   \<and> filter (\<lambda>m. label m = recommendation_label) (parseAnalysisMetrics rt text) =
      [if str_includes text (js ''BUY'') \<or> str_includes text ja_buy
       then \<lparr>label = recommendation_label, value_m = js ''BUY'', class_m = js ''sentiment-positive''\<rparr>
       else if str_includes text (js ''SELL'') \<or> str_includes text ja_sell
       then \<lparr>label = recommendation_label, value_m = js ''SELL'', class_m = js ''sentiment-negative''\<rparr>
       else \<lparr>label = recommendation_label, value_m = js ''HOLD'', class_m = js ''sentiment-neutral''\<rparr>]"
proof -
  let ?c = "changeMetric rt (js ''price-up'') (js ''price-down'') text"
  have p: "map label (priceMetric text) = (if occurs price_rx text then [price_label] else [])"
    using priceMetric_cases[of "text"] by auto
  have c: "map label ?c = (if occurs change_rx text then [change_label] else [])"
    using changeMetric_cases[of "text" rt "js ''price-up''" "js ''price-down''"] by auto
  have pf: "filter (\<lambda>m. label m = l) (priceMetric text) = []" if "l \<noteq> price_label" for l
    using priceMetric_cases[of "text"] that by auto
  have cf: "filter (\<lambda>m. label m = l) ?c = []" if "l \<noteq> change_label" for l
    using changeMetric_cases[of "text" rt "js ''price-up''" "js ''price-down''"] that by auto
  have 1: "map label (parseAnalysisMetrics rt text) =
      (if occurs price_rx text then [price_label] else [])
      @ (if occurs change_rx text then [change_label] else [])
      @ [sentiment_label, recommendation_label]"
    unfolding parseAnalysisMetrics_parts
    by (simp only: map_append p c list.map label_sentiment_of label_recommendation_of)
  have 2: "filter (\<lambda>m. label m = sentiment_label) (parseAnalysisMetrics rt text) = [sentiment_of text]"
    unfolding parseAnalysisMetrics_parts
    using pf[of sentiment_label] cf[of sentiment_label] labels_distinct
    by (simp add: label_sentiment_of label_recommendation_of)
  have 3: "filter (\<lambda>m. label m = recommendation_label) (parseAnalysisMetrics rt text)
             = [recommendation_of text]"
    unfolding parseAnalysisMetrics_parts
    using pf[of recommendation_label] cf[of recommendation_label] labels_distinct
    by (simp add: label_sentiment_of label_recommendation_of)
  show ?thesis using 1 2 3 unfolding sentiment_of_def recommendation_of_def by blast
qed

text \<open>A text without any pattern or keyword gives the two defaults; a text with all of
  them gives the four metrics, the positive and the buy keyword winning.\<close>

theorem metrics_order_and_defaults_witness:
  "\<forall>rt :: real number_ops.
     map label (parseAnalysisMetrics rt (js ''Market is calm today''))
       = [sentiment_label, recommendation_label]
     \<and> filter (\<lambda>m. label m = sentiment_label) (parseAnalysisMetrics rt (js ''Market is calm today''))
       = [\<lparr>label = sentiment_label, value_m = ja_neutral, class_m = js ''sentiment-neutral''\<rparr>]
     \<and> filter (\<lambda>m. label m = recommendation_label) (parseAnalysisMetrics rt (js ''Market is calm today''))
       = [\<lparr>label = recommendation_label, value_m = js ''HOLD'', class_m = js ''sentiment-neutral''\<rparr>]
     \<and> map label (parseAnalysisMetrics rt (js ''BTC at $45,230.50, up 2.5%: NEGATIVE news, POSITIVE trend, SELL or BUY''))
       = [price_label, change_label, sentiment_label, recommendation_label]
     \<and> filter (\<lambda>m. label m = sentiment_label)
         (parseAnalysisMetrics rt (js ''BTC at $45,230.50, up 2.5%: NEGATIVE news, POSITIVE trend, SELL or BUY''))
       = [\<lparr>label = sentiment_label, value_m = ja_positive, class_m = js ''sentiment-positive''\<rparr>]
     \<and> filter (\<lambda>m. label m = recommendation_label)
         (parseAnalysisMetrics rt (js ''BTC at $45,230.50, up 2.5%: NEGATIVE news, POSITIVE trend, SELL or BUY''))
       = [\<lparr>label = recommendation_label, value_m = js ''BUY'', class_m = js ''sentiment-positive''\<rparr>]"
proof -
  have calm: "\<not> occurs price_rx (js ''Market is calm today'')" "\<not> occurs change_rx (js ''Market is calm today'')"
    unfolding rx_exec_None_iff[symmetric]
    by (simp_all add: price_rx_def change_rx_def is_digit_def digit_or_comma_def)
  have full: "occurs price_rx (js ''BTC at $45,230.50, up 2.5%: NEGATIVE news, POSITIVE trend, SELL or BUY'')"
     "occurs change_rx (js ''BTC at $45,230.50, up 2.5%: NEGATIVE news, POSITIVE trend, SELL or BUY'')"
    using rx_exec_None_iff[of price_rx "js ''BTC at $45,230.50, up 2.5%: NEGATIVE news, POSITIVE trend, SELL or BUY''"]
      rx_exec_None_iff[of change_rx "js ''BTC at $45,230.50, up 2.5%: NEGATIVE news, POSITIVE trend, SELL or BUY''"]
    by (simp_all add: price_rx_def change_rx_def is_digit_def digit_or_comma_def)
  have kw1: "\<not> str_includes (js ''Market is calm today'') (js ''POSITIVE'')"
     "\<not> str_includes (js ''Market is calm today'') ja_positive"
     "\<not> str_includes (js ''Market is calm today'') (js ''NEGATIVE'')"
     "\<not> str_includes (js ''Market is calm today'') ja_negative"
     "\<not> str_includes (js ''Market is calm today'') (js ''BUY'')"
     "\<not> str_includes (js ''Market is calm today'') ja_buy"
     "\<not> str_includes (js ''Market is calm today'') (js ''SELL'')"
     "\<not> str_includes (js ''Market is calm today'') ja_sell"
    by (simp_all add: ja_positive_def ja_negative_def ja_buy_def ja_sell_def)
  have kw2: "str_includes (js ''BTC at $45,230.50, up 2.5%: NEGATIVE news, POSITIVE trend, SELL or BUY'') (js ''POSITIVE'')"
     "str_includes (js ''BTC at $45,230.50, up 2.5%: NEGATIVE news, POSITIVE trend, SELL or BUY'') (js ''BUY'')"
    by simp_all
  show ?thesis
  proof
    fix rt :: "real number_ops"
    show "map label (parseAnalysisMetrics rt (js ''Market is calm today''))
       = [sentiment_label, recommendation_label]
     \<and> filter (\<lambda>m. label m = sentiment_label) (parseAnalysisMetrics rt (js ''Market is calm today''))
       = [\<lparr>label = sentiment_label, value_m = ja_neutral, class_m = js ''sentiment-neutral''\<rparr>]
     \<and> filter (\<lambda>m. label m = recommendation_label) (parseAnalysisMetrics rt (js ''Market is calm today''))
       = [\<lparr>label = recommendation_label, value_m = js ''HOLD'', class_m = js ''sentiment-neutral''\<rparr>]
     \<and> map label (parseAnalysisMetrics rt (js ''BTC at $45,230.50, up 2.5%: NEGATIVE news, POSITIVE trend, SELL or BUY''))
       = [price_label, change_label, sentiment_label, recommendation_label]
     \<and> filter (\<lambda>m. label m = sentiment_label)
         (parseAnalysisMetrics rt (js ''BTC at $45,230.50, up 2.5%: NEGATIVE news, POSITIVE trend, SELL or BUY''))
       = [\<lparr>label = sentiment_label, value_m = ja_positive, class_m = js ''sentiment-positive''\<rparr>]
     \<and> filter (\<lambda>m. label m = recommendation_label)
         (parseAnalysisMetrics rt (js ''BTC at $45,230.50, up 2.5%: NEGATIVE news, POSITIVE trend, SELL or BUY''))
       = [\<lparr>label = recommendation_label, value_m = js ''BUY'', class_m = js ''sentiment-positive''\<rparr>]"
      using metrics_order_and_defaults[of rt "js ''Market is calm today''"]
        metrics_order_and_defaults[of rt "js ''BTC at $45,230.50, up 2.5%: NEGATIVE news, POSITIVE trend, SELL or BUY''"]
      by (simp only: calm full kw1 kw2 if_True if_False simp_thms append_Nil append_Cons)
  qed
qed

section \<open>News sentiment\<close>

lemma distinct_positiveWords: "distinct positiveWords"
  by (simp add: positiveWords_def)

lemma distinct_negativeWords: "distinct negativeWords"
  by (simp add: negativeWords_def)

lemma length_filter_card: "distinct xs \<Longrightarrow> length (filter P xs) = card {x \<in> set xs. P x}"
  by (metis distinct_card distinct_filter set_filter)

text \<open>
  C7, as the code has it. The sentiment of a news item compares how many keywords of the
  positive list and how many of the negative list occur in the lower-cased title and
  summary (joined by a space), each keyword counting once however often it occurs:
  positive when more positive keywords occur, negative when more negative ones do, neutral
  on a tie. The result is a function of the title and the summary alone.
\<close>

theorem analyzeSentiment_counts_keywords:
  "analyzeSentiment toLowerCase news_title summary =
     (let text = toLowerCase (news_title @ js '' '' @ summary);
          pos = card {word \<in> set positiveWords. str_includes text word};
          neg = card {word \<in> set negativeWords. str_includes text word}
      in if pos > neg then js ''positive'' else if neg > pos then js ''negative'' else js ''neutral'')"
  by (simp add: analyzeSentiment_def Let_def
        length_filter_card[OF distinct_positiveWords] length_filter_card[OF distinct_negativeWords])

theorem analyzeSentiment_counts_keywords_witness:
  "analyzeSentiment toLowerCase_ascii (js ''Bitcoin RALLY'') (js ''Prices surge after the crash'')
     = js ''positive''
   \<and> analyzeSentiment toLowerCase_ascii (js ''Bitcoin RALLY'') (js ''Prices surge after the crash'')
     = (let text = toLowerCase_ascii (js ''Bitcoin RALLY'' @ js '' '' @ js ''Prices surge after the crash'');
            pos = card {word \<in> set positiveWords. str_includes text word};
            neg = card {word \<in> set negativeWords. str_includes text word}
        in if pos > neg then js ''positive'' else if neg > pos then js ''negative'' else js ''neutral'')
   \<and> analyzeSentiment toLowerCase_ascii (js ''Markets are quiet'') (js ''Nothing to report'')
     = js ''neutral''"
proof -
  have 1: "analyzeSentiment toLowerCase_ascii (js ''Bitcoin RALLY'') (js ''Prices surge after the crash'')
     = js ''positive''"
    by (simp add: analyzeSentiment_def toLowerCase_ascii_def positiveWords_def negativeWords_def)
  have 2: "analyzeSentiment toLowerCase_ascii (js ''Markets are quiet'') (js ''Nothing to report'')
     = js ''neutral''"
    by (simp add: analyzeSentiment_def toLowerCase_ascii_def positiveWords_def negativeWords_def)
  show ?thesis
    using 1 2 analyzeSentiment_counts_keywords
           [of toLowerCase_ascii "js ''Bitcoin RALLY''" "js ''Prices surge after the crash''"]
    by blast
qed

text \<open>
  Three occurrences of a positive keyword against one occurrence each of two negative
  keywords: by occurrences the score is 3 to 2, and the result is negative.
\<close>

theorem repeated_keyword_counts_once:
  "occurrence_score positiveWords
      (toLowerCase_ascii (js ''surge surge surge'' @ js '' '' @ js ''crash dump'')) = 3
   \<and> occurrence_score negativeWords
      (toLowerCase_ascii (js ''surge surge surge'' @ js '' '' @ js ''crash dump'')) = 2
   \<and> analyzeSentiment toLowerCase_ascii (js ''surge surge surge'') (js ''crash dump'') = js ''negative''"
  by (simp add: occurrence_score_def analyzeSentiment_def toLowerCase_ascii_def positiveWords_def negativeWords_def)

section \<open>Price acquisition\<close>

lemma primary_failed_block: "primary_failed net cryptoId \<Longrightarrow> try_catch_log (primary_block net cryptoId) = Normal"
  by (auto simp: primary_failed_def primary_block_def try_catch_log_def await_def split: sum.splits)

lemma fallback_failed_block: "fallback_failed net cryptoId \<Longrightarrow> try_catch_log (fallback_block net cryptoId) = Normal"
  by (auto simp: fallback_failed_def fallback_block_def try_catch_log_def await_def split: sum.splits)

lemma try_catch_log_no_throw: "try_catch_log c \<noteq> Throw e"
  by (cases c) (auto simp: try_catch_log_def)

lemma never_throws: "\<exists>v. fst (fetchCryptoPrice net cryptoId) = Return v"
  using try_catch_log_no_throw[of "primary_block net cryptoId"] try_catch_log_no_throw[of "fallback_block net cryptoId"]
  by (auto simp: fetchCryptoPrice_def split: completion.splits)

lemma fallback_shape_block:
  "fallback_shape net cryptoId usd change \<Longrightarrow>
   fallback_block net cryptoId = Return (JObj [(js ''price_usd'', usd), (js ''price_change_24h'', change)])"
  by (auto simp: fallback_shape_def fallback_block_def await_def optProp_def
           split: sum.splits jsval.splits option.splits)

text \<open>
  The mobile app's price fetch. \<open>fetchCryptoPrice\<close> always returns a value and never throws. It requests the primary
  endpoint first, and after it at most the one fallback endpoint of the same entity. A
  successful primary response is returned as it is, without a second request. When the
  primary request fails (transport failure or a response that is not a success), the
  fallback is requested; an answer in the fallback's shape is returned as an object with
  the fields \<open>price_usd\<close> and \<open>price_change_24h\<close>, and when the fallback fails too the
  result is \<open>null\<close>.
\<close>

theorem fetchCryptoPrice_tiers:
  "(\<exists>v. fst (fetchCryptoPrice net cryptoId) = Return v)
   \<and> (snd (fetchCryptoPrice net cryptoId) = [primary_url cryptoId]
      \<or> snd (fetchCryptoPrice net cryptoId) = [primary_url cryptoId, fallback_url cryptoId])
   \<and> (net (primary_url cryptoId) = Inr response \<and> ok response \<and> json response = Inr data \<longrightarrow>
        fetchCryptoPrice net cryptoId = (Return data, [primary_url cryptoId]))
   \<and> (primary_failed net cryptoId \<longrightarrow>
        snd (fetchCryptoPrice net cryptoId) = [primary_url cryptoId, fallback_url cryptoId])
   \<and> (primary_failed net cryptoId \<and> fallback_shape net cryptoId usd change \<longrightarrow>
        fst (fetchCryptoPrice net cryptoId)
          = Return (JObj [(js ''price_usd'', usd), (js ''price_change_24h'', change)]))
   \<and> (primary_failed net cryptoId \<and> fallback_failed net cryptoId \<longrightarrow>
        fst (fetchCryptoPrice net cryptoId) = Return JNull)"
proof (intro conjI impI)
  show "\<exists>v. fst (fetchCryptoPrice net cryptoId) = Return v" by (rule never_throws)
  show "snd (fetchCryptoPrice net cryptoId) = [primary_url cryptoId]
      \<or> snd (fetchCryptoPrice net cryptoId) = [primary_url cryptoId, fallback_url cryptoId]"
    by (auto simp: fetchCryptoPrice_def split: completion.splits)
  show "fetchCryptoPrice net cryptoId = (Return data, [primary_url cryptoId])"
    if "net (primary_url cryptoId) = Inr response \<and> ok response \<and> json response = Inr data"
    using that by (simp add: fetchCryptoPrice_def primary_block_def try_catch_log_def await_def)
  show "snd (fetchCryptoPrice net cryptoId) = [primary_url cryptoId, fallback_url cryptoId]"
    if "primary_failed net cryptoId"
    using primary_failed_block[OF that] by (auto simp: fetchCryptoPrice_def split: completion.splits)
  show "fst (fetchCryptoPrice net cryptoId)
          = Return (JObj [(js ''price_usd'', usd), (js ''price_change_24h'', change)])"
    if "primary_failed net cryptoId \<and> fallback_shape net cryptoId usd change"
    using that primary_failed_block[of net cryptoId] fallback_shape_block[of net cryptoId usd change]
    by (simp add: fetchCryptoPrice_def try_catch_log_def)
  show "fst (fetchCryptoPrice net cryptoId) = Return JNull"
    if "primary_failed net cryptoId \<and> fallback_failed net cryptoId"
    using that primary_failed_block[of net cryptoId] fallback_failed_block[of net cryptoId]
    by (simp add: fetchCryptoPrice_def)
qed

text \<open>The example: the quote has the two values of the fallback's answer, after a request
  to the primary and one to the fallback endpoint.\<close>

theorem fetchCryptoPrice_tiers_witness:
  "fetchCryptoPrice example_network (js ''bitcoin'') =
    (Return (JObj [(js ''price_usd'', JNum 50000), (js ''price_change_24h'', JNum 2.5)]),
     [primary_url (js ''bitcoin''), fallback_url (js ''bitcoin'')])"
proof -
  have p: "primary_failed example_network (js ''bitcoin'')"
    by (simp add: primary_failed_def example_network_def)
  have f: "fallback_shape example_network (js ''bitcoin'') (JNum 50000) (JNum 2.5)"
    by (simp add: fallback_shape_def example_network_def primary_url_def fallback_url_def)
  show ?thesis
    using fetchCryptoPrice_tiers[where net = example_network and cryptoId = "js ''bitcoin''"
                and usd = "JNum 50000" and change = "JNum 2.5"] p f
    by (cases "fetchCryptoPrice example_network (js ''bitcoin'')") simp
qed

section \<open>Price acquisition on the dashboard\<close>

text \<open>After a response that is not a success the dashboard asks the public endpoint, once.\<close>

lemma overview_try_not_ok:
  assumes "net (primary_url crypto_id) = Inr response" and "\<not> ok response"
  shows "snd (overview_try updatePriceCard net crypto_id)
           = [primary_url crypto_id, coingecko_url crypto_id]"
  using assms by (simp add: overview_try_def)

text \<open>After a rejected primary request it asks nobody, and the handler throws.\<close>

lemma overview_iteration_rejected:
  assumes "net (primary_url crypto_id) = Inl e"
  shows "overview_iteration updatePriceCard net crypto_id = (Throw TypeError, [primary_url crypto_id])"
  using assms by (simp add: overview_iteration_def overview_try_def)

text \<open>
  C1. With the backend unreachable and the public endpoint answering, the price fetch of
  the mobile app returns the quote of the fallback after its two requests, as the claim
  says. The price fetch of the dashboard, \<open>loadMarketOverview\<close>, makes the one request to
  the primary endpoint for bitcoin, asks no fallback, and ends by throwing a TypeError.
\<close>

theorem dashboard_rejected_fetch_no_fallback:
  "loadMarketOverview updatePriceCard backend_down_network
     = (Throw TypeError, [primary_url (js ''bitcoin'')])
   \<and> fetchCryptoPrice backend_down_network (js ''bitcoin'')
     = (Return (JObj [(js ''price_usd'', JNum 50000), (js ''price_change_24h'', JNum 2.5)]),
        [primary_url (js ''bitcoin''), fallback_url (js ''bitcoin'')])"
  by (simp add: loadMarketOverview_def overview_iteration_def overview_try_def
        backend_down_network_def fetchCryptoPrice_def primary_block_def fallback_block_def
        try_catch_log_def await_def optProp_def primary_url_def fallback_url_def coingecko_url_def)

end
